theory Spec2Isabelle
  imports Complex_Main
begin

section \<open>Data model\<close>

text \<open>
  Documents are records, collections are lists of documents in insertion order, and the
  store is a record of the collections. Status fields are strings, as in the schemas; the
  \<^verbatim>\<open>enum\<close> validators are predicates run where Mongoose runs them. Slot counts are
  of the schema type Number, which has validators for the range 0 to 100 and none for
  integrality; they are rationals. Prices are only copied and are integers. Timestamps
  are milliseconds since the epoch. Only the schema paths that the modelled controllers
  read or write are kept.
\<close>

text \<open>
  An ObjectId is identified with the string \<^verbatim>\<open>toString()\<close> prints for it: hexadecimal
  digits with the letters in lower case. An id that arrives in a request is a string of
  hexadecimal digits in either case, of the length of an ObjectId. Where Mongoose casts it to an ObjectId (in a query
  filter, or when a document is built) the letter case is lost; where a controller or a
  model method compares it as a string (\<^verbatim>\<open>a.toString() === b\<close>) it is compared as it
  arrived.
\<close>

type_synonym objectId = string

definition lowerHex :: "char \<Rightarrow> char" where
  "lowerHex c =
     (if c = CHR ''A'' then CHR ''a'' else if c = CHR ''B'' then CHR ''b''
      else if c = CHR ''C'' then CHR ''c'' else if c = CHR ''D'' then CHR ''d''
      else if c = CHR ''E'' then CHR ''e'' else if c = CHR ''F'' then CHR ''f'' else c)"

definition castObjectId :: "string \<Rightarrow> objectId" where
  "castObjectId i = map lowerHex i"

text \<open>models/Booking.js\<close>

record booking =
  b_id :: objectId
  b_user :: objectId
  b_test :: objectId
  b_hcs :: objectId
  b_status :: string
  b_scheduledAt :: int
  b_priceAtBooking :: "int option"

text \<open>models/Test.js: one element of \<^verbatim>\<open>hcsPricing\<close>, and the test itself.\<close>

record pricing =
  p_hcs :: objectId
  p_price :: int
  p_status :: string

record test =
  t_id :: objectId
  t_price :: int
  t_hcsPricing :: "pricing list"

text \<open>models/HealthcareCenter.js: one element of \<^verbatim>\<open>testSlots\<close>, and the center.\<close>

record testSlot =
  ts_test :: objectId
  ts_slotsPerDay :: rat

record center =
  c_id :: objectId
  c_admin :: objectId
  c_availableSlotsPerDay :: rat
  c_testSlots :: "testSlot list"

text \<open>models/TestAssignmentRequest.js\<close>

record request =
  r_id :: objectId
  r_test :: objectId
  r_hcs :: objectId
  r_requestedPrice :: int
  r_status :: string
  r_requestedBy :: objectId
  r_reviewedBy :: "objectId option"
  r_notes :: "string option"

text \<open>
  models/User.js (the stored phone number) and \<^verbatim>\<open>req.user\<close>, whose id is a string.
\<close>

record user =
  u_id :: objectId
  u_phone :: "string option"

record reqUser =
  ru_id :: string
  ru_role :: string

record db =
  bookings :: "booking list"
  tests :: "test list"
  centers :: "center list"
  requests :: "request list"
  users :: "user list"

text \<open>
  What a handler does with the response object: \<^verbatim>\<open>res.status(c).json({success: true, data})\<close>,
  \<^verbatim>\<open>res.status(c).json({success: false, message})\<close>, or \<^verbatim>\<open>next(error)\<close> from
  the \<^verbatim>\<open>catch\<close> block. The data of a success is the document as stored; the
  \<^verbatim>\<open>populate\<close> calls, which join in fields of the referenced documents for display,
  are left out.
\<close>

datatype error = ValidationError string | CastError string | TypeError | DuplicateKey

datatype 'a response = Success nat 'a | Failure nat string | NextError error

text \<open>The result of \<^verbatim>\<open>new Date(x)\<close>: an invalid date or a timestamp.\<close>

datatype jsDate = InvalidDate | Date int

section \<open>Store operations\<close>

text \<open>
  \<^verbatim>\<open>Model.findById\<close>, \<^verbatim>\<open>Model.findOne\<close>: the first document whose key is the
  ObjectId asked for. The callers below cast the id of a request before they ask.
\<close>

definition findById :: "('a \<Rightarrow> objectId) \<Rightarrow> 'a list \<Rightarrow> objectId \<Rightarrow> 'a option" where
  "findById key docs i = find (\<lambda>d. key d = i) docs"

text \<open>
  \<^verbatim>\<open>findByIdAndUpdate\<close> and \<^verbatim>\<open>doc.save()\<close> of a loaded document: the first
  document with the id is replaced, the others are left alone.
\<close>

fun updateFirst :: "('a \<Rightarrow> objectId) \<Rightarrow> objectId \<Rightarrow> ('a \<Rightarrow> 'a) \<Rightarrow> 'a list \<Rightarrow> 'a list" where
  "updateFirst key i f [] = []"
| "updateFirst key i f (d # ds) = (if key d = i then f d # ds else d # updateFirst key i f ds)"

text \<open>\<^verbatim>\<open>Array.prototype.findIndex\<close>, with \<open>None\<close> for -1.\<close>

fun findIndex :: "('a \<Rightarrow> bool) \<Rightarrow> 'a list \<Rightarrow> nat option" where
  "findIndex P [] = None"
| "findIndex P (x # xs) = (if P x then Some 0 else map_option Suc (findIndex P xs))"

section \<open>Dates\<close>

definition msPerDay :: int where
  "msPerDay = 86400000"

text \<open>
  \<^verbatim>\<open>d.setHours(h, m, s, ms)\<close> sets the local wall-clock time of \<open>d\<close>, keeping its
  local calendar day. Local time is UTC plus \<open>tz\<close> milliseconds, the server's zone
  offset, taken as fixed.
\<close>

definition setHours :: "int \<Rightarrow> int \<Rightarrow> int \<Rightarrow> int \<Rightarrow> int \<Rightarrow> int \<Rightarrow> int" where
  "setHours tz d h m s ms = d - ((d + tz) mod msPerDay) + ((h * 60 + m) * 60 + s) * 1000 + ms"

text \<open>The number of the local calendar day a timestamp falls on.\<close>

definition localDay :: "int \<Rightarrow> int \<Rightarrow> int" where
  "localDay tz d = (d + tz) div msPerDay"

section \<open>String conversion of numbers in template literals\<close>

fun showNat :: "nat \<Rightarrow> string" where
  "showNat n = (if n < 10 then [''0123456789'' ! n]
                else showNat (n div 10) @ [''0123456789'' ! (n mod 10)])"

text \<open>
  A Number prints as its decimal expansion: an integer without a fraction part, another
  number with the digits after the point, of which a Number holds at most 17.
\<close>

fun fracDigits :: "nat \<Rightarrow> rat \<Rightarrow> string" where
  "fracDigits n f =
     (if n = 0 \<or> f = 0 then []
      else (''0123456789'' ! nat \<lfloor>f * 10\<rfloor>) # fracDigits (n - 1) (f * 10 - of_int \<lfloor>f * 10\<rfloor>))"

definition showNumber :: "rat \<Rightarrow> string" where
  "showNumber q =
     (let a = \<bar>q\<bar>; f = a - of_int \<lfloor>a\<rfloor>
      in (if q < 0 then ''-'' else []) @ showNat (nat \<lfloor>a\<rfloor>)
           @ (if f = 0 then [] else ''.'' @ fracDigits 17 f))"

section \<open>models/HealthcareCenter.js\<close>

text \<open>
  Both methods compare \<^verbatim>\<open>slot.test.toString()\<close> with \<^verbatim>\<open>testId.toString()\<close>: the
  test id is taken as the caller passes it.
\<close>

definition getSlotsForTest :: "center \<Rightarrow> string \<Rightarrow> rat" where
  "getSlotsForTest this testId =
     (case find (\<lambda>slot. ts_test slot = testId) (c_testSlots this) of
        Some testSlot \<Rightarrow> ts_slotsPerDay testSlot
      | None \<Rightarrow> c_availableSlotsPerDay this)"



definition slotsValid :: "rat \<Rightarrow> bool" where
  "slotsValid n = (0 \<le> n \<and> n \<le> 100)"




section \<open>models/Booking.js\<close>

definition bookingStatusEnum :: "string list" where
  "bookingStatusEnum = [''pending'', ''confirmed'', ''completed'', ''canceled'']"

text \<open>The \<^verbatim>\<open>pre('save')\<close> hook; \<open>isNew\<close> is \<^verbatim>\<open>this.isNew\<close>.\<close>

definition bookingPreSave :: "bool \<Rightarrow> test list \<Rightarrow> booking \<Rightarrow> booking" where
  "bookingPreSave isNew ts this =
     (if isNew then
        (case findById t_id ts (b_test this) of
           Some t \<Rightarrow>
             (case find (\<lambda>pricing. p_hcs pricing = b_hcs this \<and> p_status pricing = ''approved'')
                        (t_hcsPricing t) of
                Some hcsPricing \<Rightarrow> this\<lparr>b_priceAtBooking := Some (p_price hcsPricing)\<rparr>
              | None \<Rightarrow> this\<lparr>b_priceAtBooking := Some (t_price t)\<rparr>)
         | None \<Rightarrow> this\<lparr>b_priceAtBooking := Some 0\<rparr>)
      else this)"

section \<open>controllers/bookingController.js\<close>

text \<open>
  The handlers are modelled from the point where Express calls them: the role checks of the
  routes (\<^verbatim>\<open>authorize\<close>) have passed, and \<^verbatim>\<open>req.user\<close> is the authenticated user.
\<close>

text \<open>
  \<open>hcsId\<close> is the ObjectId that the filter of \<^verbatim>\<open>countDocuments\<close> holds after the
  query has cast it; the callers below do the cast.
\<close>

definition countBookingsForDate :: "int \<Rightarrow> booking list \<Rightarrow> objectId \<Rightarrow> int \<Rightarrow> nat" where
  "countBookingsForDate tz bs hcsId d =
     (let startOfDay = setHours tz d 0 0 0 0;
          endOfDay = setHours tz d 23 59 59 999
      in length (filter (\<lambda>b. b_hcs b = hcsId
                              \<and> startOfDay \<le> b_scheduledAt b \<and> b_scheduledAt b \<le> endOfDay
                              \<and> b_status b \<noteq> ''canceled'') bs))"

definition noSlotsMessage :: "rat \<Rightarrow> string" where
  "noSlotsMessage availableSlots =
     ''No available slots for the selected date. Maximum '' @ showNumber availableSlots
       @ '' bookings allowed per day for this test.''"

text \<open>
  The body of \<^verbatim>\<open>POST /api/bookings\<close>. A field is \<open>None\<close> when it is absent (or
  falsy); the ids are the strings of the request, and \<open>cr_scheduledAt\<close> holds what
  \<^verbatim>\<open>new Date(scheduledAt)\<close> gives.
\<close>

record createBody =
  cr_test :: "string option"
  cr_hcs :: "string option"
  cr_scheduledAt :: "jsDate option"
  cr_phone :: "string option"

definition truthy :: "string option \<Rightarrow> bool" where
  "truthy x = (case x of None \<Rightarrow> False | Some v \<Rightarrow> v \<noteq> [])"

text \<open>
  \<open>now\<close> is \<^verbatim>\<open>new Date()\<close> at the call and \<open>newId\<close> the ObjectId generated for the
  new document; the store refuses an id that is already in the collection. The test and
  the center are looked up, the bookings counted and the new document built with the ids
  cast; the pricing entry is sought with the center id, and the slots with the test id, as
  the request wrote them.
\<close>

definition createBooking ::
  "int \<Rightarrow> int \<Rightarrow> objectId \<Rightarrow> db \<Rightarrow> reqUser \<Rightarrow> createBody \<Rightarrow> db \<times> booking response" where
  "createBooking tz now newId s usr body =
     (case (cr_test body, cr_hcs body, cr_scheduledAt body) of
        (Some testId, Some hcsId, Some scheduledAt) \<Rightarrow>
          (case findById t_id (tests s) (castObjectId testId) of
             None \<Rightarrow> (s, Failure 404 ''Test not found'')
           | Some testDoc \<Rightarrow>
          (case findById c_id (centers s) (castObjectId hcsId) of
             None \<Rightarrow> (s, Failure 404 ''Healthcare center not found'')
           | Some hcsDoc \<Rightarrow>
          (case find (\<lambda>pricing. p_hcs pricing = hcsId \<and> p_status pricing = ''approved'')
                     (t_hcsPricing testDoc) of
             None \<Rightarrow> (s, Failure 400 ''Test is not available at the selected healthcare center'')
           | Some hcsPricing \<Rightarrow>
          (case scheduledAt of
             InvalidDate \<Rightarrow> (s, Failure 400 ''Invalid date format provided'')
           | Date scheduledDate \<Rightarrow>
             if scheduledDate \<le> now then (s, Failure 400 ''Scheduled time must be in the future'')
             else
               let bookingCount = countBookingsForDate tz (bookings s) (castObjectId hcsId)
                                    scheduledDate;
                   availableSlots = getSlotsForTest hcsDoc testId
               in if of_nat bookingCount \<ge> availableSlots
                  then (s, Failure 400 (noSlotsMessage availableSlots))
                  else
                    let s1 = (if truthy (cr_phone body)
                              then s\<lparr>users := updateFirst u_id (castObjectId (ru_id usr))
                                                  (\<lambda>u. u\<lparr>u_phone := cr_phone body\<rparr>) (users s)\<rparr>
                              else s);
                        doc = bookingPreSave True (tests s1)
                                \<lparr>b_id = newId, b_user = castObjectId (ru_id usr),
                                 b_test = castObjectId testId, b_hcs = castObjectId hcsId,
                                 b_status = ''pending'', b_scheduledAt = scheduledDate,
                                 b_priceAtBooking = None\<rparr>
                    in if findById b_id (bookings s1) newId \<noteq> None
                       then (s1, NextError DuplicateKey)
                       else (s1\<lparr>bookings := bookings s1 @ [doc]\<rparr>, Success 201 doc)))))
      | _ \<Rightarrow> (s, Failure 400 ''Test, healthcare center, and scheduled date are required''))"

text \<open>
  The body of \<^verbatim>\<open>PUT /api/bookings/:id\<close>, which \<^verbatim>\<open>findByIdAndUpdate\<close> applies
  as it is: every path of the schema may be present.
\<close>

record updateBody =
  ub_status :: "string option"
  ub_scheduledAt :: "jsDate option"
  ub_user :: "string option"
  ub_test :: "string option"
  ub_hcs :: "string option"
  ub_priceAtBooking :: "int option"

definition applyUpdate :: "updateBody \<Rightarrow> booking \<Rightarrow> booking" where
  "applyUpdate body b =
     b\<lparr>b_status := (case ub_status body of None \<Rightarrow> b_status b | Some v \<Rightarrow> v),
       b_scheduledAt := (case ub_scheduledAt body of Some (Date v) \<Rightarrow> v | _ \<Rightarrow> b_scheduledAt b),
       b_user := (case ub_user body of None \<Rightarrow> b_user b | Some v \<Rightarrow> castObjectId v),
       b_test := (case ub_test body of None \<Rightarrow> b_test b | Some v \<Rightarrow> castObjectId v),
       b_hcs := (case ub_hcs body of None \<Rightarrow> b_hcs b | Some v \<Rightarrow> castObjectId v),
       b_priceAtBooking := (case ub_priceAtBooking body of None \<Rightarrow> b_priceAtBooking b
                            | Some v \<Rightarrow> Some v)\<rparr>"

text \<open>
  \<^verbatim>\<open>Booking.findByIdAndUpdate(id, req.body, {new: true, runValidators: true})\<close>: the
  query throws when a value cannot be cast or fails a validator, and otherwise gives the
  updated document, or null when no document has the id.
\<close>

definition findByIdAndUpdateBooking :: "db \<Rightarrow> string \<Rightarrow> updateBody \<Rightarrow> error + db \<times> booking option" where
  "findByIdAndUpdateBooking s i body =
     (if ub_scheduledAt body = Some InvalidDate
      then Inl (CastError ''scheduledAt'')
      else if (case ub_status body of None \<Rightarrow> False | Some v \<Rightarrow> v \<notin> set bookingStatusEnum)
      then Inl (ValidationError ''status'')
      else Inr (s\<lparr>bookings := updateFirst b_id (castObjectId i) (applyUpdate body) (bookings s)\<rparr>,
                map_option (applyUpdate body) (findById b_id (bookings s) (castObjectId i))))"

text \<open>
  The ownership check made for the role \<^verbatim>\<open>HCS Admin\<close>: the center is looked up by a
  query on its admin, and its id is compared with the booking's center, both as stored.
\<close>

definition hcsAdminDenied :: "db \<Rightarrow> reqUser \<Rightarrow> booking \<Rightarrow> bool" where
  "hcsAdminDenied s usr b =
     (ru_role usr = ''HCS Admin'' \<and>
      (case find (\<lambda>c. c_admin c = castObjectId (ru_id usr)) (centers s) of
         None \<Rightarrow> True
       | Some hcs \<Rightarrow> c_id hcs \<noteq> b_hcs b))"

definition updateBooking ::
  "int \<Rightarrow> db \<Rightarrow> reqUser \<Rightarrow> string \<Rightarrow> updateBody \<Rightarrow> db \<times> booking option response" where
  "updateBooking tz s usr i body =
     (case findById b_id (bookings s) (castObjectId i) of
        None \<Rightarrow> (s, Failure 404 ''Booking not found'')
      | Some b \<Rightarrow>
          if hcsAdminDenied s usr b then (s, Failure 403 ''Not authorized to update this booking'')
          else
            let previousStatus = b_status b;
                newStatus = ub_status body;
                updated = (case findByIdAndUpdateBooking s i body of
                             Inl e \<Rightarrow> (s, NextError e)
                           | Inr (s', b') \<Rightarrow> (s', Success 200 b'))
            in if newStatus = Some ''confirmed'' \<and> previousStatus \<noteq> ''confirmed'' then
                 (let bookingCount = countBookingsForDate tz (bookings s) (b_hcs b) (b_scheduledAt b)
                  in case findById c_id (centers s) (b_hcs b) of
                       None \<Rightarrow> (s, NextError TypeError)
                     | Some hcsDoc \<Rightarrow>
                         let availableSlots = getSlotsForTest hcsDoc (b_test b)
                         in if of_nat bookingCount \<ge> availableSlots
                            then (s, Failure 400 (noSlotsMessage availableSlots))
                            else updated)
               else updated)"

definition cancelBooking :: "db \<Rightarrow> reqUser \<Rightarrow> string \<Rightarrow> db \<times> booking response" where
  "cancelBooking s usr i =
     (case findById b_id (bookings s) (castObjectId i) of
        None \<Rightarrow> (s, Failure 404 ''Booking not found'')
      | Some b \<Rightarrow>
          if ru_role usr = ''Customer'' \<and> b_user b \<noteq> ru_id usr
          then (s, Failure 403 ''Not authorized to cancel this booking'')
          else if hcsAdminDenied s usr b
          then (s, Failure 403 ''Not authorized to cancel this booking'')
          else
            let doc = bookingPreSave False (tests s) (b\<lparr>b_status := ''canceled''\<rparr>)
            in (s\<lparr>bookings := updateFirst b_id (b_id b) (\<lambda>_. doc) (bookings s)\<rparr>, Success 200 doc))"

section \<open>controllers/testController.js\<close>

definition requestStatusEnum :: "string list" where
  "requestStatusEnum = [''pending'', ''approved'', ''rejected'']"

text \<open>
  The search-then-replace on \<^verbatim>\<open>test.hcsPricing\<close> shared by assignTestToHCS and
  reviewAssignmentRequest: the first entry of the center is overwritten, or an entry is pushed.
\<close>

definition upsertPricing :: "objectId \<Rightarrow> int \<Rightarrow> pricing list \<Rightarrow> pricing list" where
  "upsertPricing hcs price ps =
     (case findIndex (\<lambda>item. p_hcs item = hcs) ps of
        Some i \<Rightarrow> ps[i := (ps ! i)\<lparr>p_price := price, p_status := ''approved''\<rparr>]
      | None \<Rightarrow> ps @ [\<lparr>p_hcs = hcs, p_price = price, p_status = ''approved''\<rparr>])"

record reviewBody =
  rv_status :: string
  rv_notes :: "string option"

definition reviewMessage :: "string \<Rightarrow> string" where
  "reviewMessage st = ''Test assignment request '' @ st @ '' successfully''"

text \<open>
  \<^verbatim>\<open>request.save()\<close> validates the paths that were set: the status against its enum and
  the notes, when given, against their maximal length of 500; \<^verbatim>\<open>test.save()\<close>
  validates the price written, which must not be negative. The body's status is a string.
\<close>

definition reviewAssignmentRequest ::
  "db \<Rightarrow> reqUser \<Rightarrow> string \<Rightarrow> reviewBody \<Rightarrow> db \<times> (string \<times> request) response" where
  "reviewAssignmentRequest s usr requestId body =
     (case findById r_id (requests s) (castObjectId requestId) of
        None \<Rightarrow> (s, Failure 404 ''Assignment request not found'')
      | Some req \<Rightarrow>
          let request = req\<lparr>r_status := rv_status body,
                            r_reviewedBy := Some (castObjectId (ru_id usr)),
                            r_notes := (if truthy (rv_notes body) then rv_notes body else r_notes req)\<rparr>
          in if rv_status body \<notin> set requestStatusEnum
             then (s, NextError (ValidationError ''status''))
             else if (case rv_notes body of None \<Rightarrow> False | Some v \<Rightarrow> length v > 500)
             then (s, NextError (ValidationError ''notes''))
             else
               let s1 = s\<lparr>requests := updateFirst r_id (r_id req) (\<lambda>_. request) (requests s)\<rparr>
               in if rv_status body = ''approved'' then
                    (case findById t_id (tests s1) (r_test request) of
                       Some t \<Rightarrow>
                         if r_requestedPrice request < 0
                         then (s1, NextError (ValidationError ''hcsPricing.price''))
                         else
                           (s1\<lparr>tests := updateFirst t_id (r_test request)
                                  (\<lambda>t. t\<lparr>t_hcsPricing :=
                                       upsertPricing (r_hcs request) (r_requestedPrice request)
                                         (t_hcsPricing t)\<rparr>) (tests s1)\<rparr>,
                            Success 200 (reviewMessage (rv_status body), request))
                     | None \<Rightarrow> (s1, Success 200 (reviewMessage (rv_status body), request)))
                  else (s1, Success 200 (reviewMessage (rv_status body), request)))"

section \<open>The specification's operations\<close>

text \<open>
  The specification's \<open>countOccupied(center, day)\<close>, written from its words: the bookings
  of the center that are not canceled and whose timestamp lies in the closed interval from
  00:00:00.000 to 23:59:59.999 of the local calendar day numbered \<open>D\<close>.
\<close>

definition dayStart :: "int \<Rightarrow> int \<Rightarrow> int" where
  "dayStart tz D = D * msPerDay - tz"

definition dayEnd :: "int \<Rightarrow> int \<Rightarrow> int" where
  "dayEnd tz D = dayStart tz D + ((23 * 60 + 59) * 60 + 59) * 1000 + 999"

definition countOccupied_spec :: "int \<Rightarrow> booking list \<Rightarrow> objectId \<Rightarrow> int \<Rightarrow> nat" where
  "countOccupied_spec tz bs C D =
     length (filter (\<lambda>b. b_hcs b = C \<and> dayStart tz D \<le> b_scheduledAt b
                          \<and> b_scheduledAt b \<le> dayEnd tz D \<and> b_status b \<noteq> ''canceled'') bs)"

text \<open>A booking occupies a slot of center \<open>C\<close> on the day of \<open>d\<close>.\<close>

definition occupies :: "int \<Rightarrow> objectId \<Rightarrow> int \<Rightarrow> booking \<Rightarrow> bool" where
  "occupies tz C d b = (b_hcs b = C \<and> localDay tz (b_scheduledAt b) = localDay tz d
                        \<and> b_status b \<noteq> ''canceled'')"

text \<open>
  The specification's \<open>capacityFor(center, test)\<close>, written from its words: the per-test
  overrides of a center form a map from test ids to slot counts, and the capacity is the
  override of the test if there is one and the default daily slot count otherwise.
\<close>

definition overrides :: "center \<Rightarrow> objectId \<rightharpoonup> rat" where
  "overrides c = map_of (map (\<lambda>slot. (ts_test slot, ts_slotsPerDay slot)) (c_testSlots c))"

definition capacityFor_spec :: "center \<Rightarrow> objectId \<Rightarrow> rat" where
  "capacityFor_spec c T = (case overrides c T of Some n \<Rightarrow> n | None \<Rightarrow> c_availableSlotsPerDay c)"

text \<open>
  The specification's price at booking, written from its words: the price of the approved
  pricing entry for (test, center) if such an entry exists, otherwise the test's base price.
\<close>

definition approvedEntries :: "test \<Rightarrow> objectId \<Rightarrow> pricing list" where
  "approvedEntries t C = filter (\<lambda>p. p_hcs p = C \<and> p_status p = ''approved'') (t_hcsPricing t)"

definition snapshotPrice_spec :: "test \<Rightarrow> objectId \<Rightarrow> int" where
  "snapshotPrice_spec t C = (case approvedEntries t C of [] \<Rightarrow> t_price t | e # _ \<Rightarrow> p_price e)"

text \<open>The approved pricing entry of a center at a price.\<close>

definition entryOf :: "objectId \<Rightarrow> int \<Rightarrow> pricing" where
  "entryOf C P = \<lparr>p_hcs = C, p_price = P, p_status = ''approved''\<rparr>"

section \<open>Requests and runs\<close>

text \<open>The body of a request that only confirms a booking: \<^verbatim>\<open>{status: 'confirmed'}\<close>.\<close>

definition confirmBody :: updateBody where
  "confirmBody = \<lparr>ub_status = Some ''confirmed'', ub_scheduledAt = None, ub_user = None,
                  ub_test = None, ub_hcs = None, ub_priceAtBooking = None\<rparr>"

text \<open>The body of a booking request for a test, a center and a time, without a phone number.\<close>

definition createBodyOf :: "string \<Rightarrow> string \<Rightarrow> int \<Rightarrow> createBody" where
  "createBodyOf t c d = \<lparr>cr_test = Some t, cr_hcs = Some c, cr_scheduledAt = Some (Date d),
                          cr_phone = None\<rparr>"

text \<open>The body of a review with a decision and no notes.\<close>

definition reviewOf :: "string \<Rightarrow> reviewBody" where
  "reviewOf st = \<lparr>rv_status = st, rv_notes = None\<rparr>"

text \<open>A run of createBooking calls, one after the other, each on the store the last one left.\<close>

fun createAll ::
  "int \<Rightarrow> int \<Rightarrow> db \<Rightarrow> (objectId \<times> reqUser \<times> createBody) list \<Rightarrow> db \<times> booking response list" where
  "createAll tz now s [] = (s, [])"
| "createAll tz now s ((newId, usr, body) # rest) =
     (case createBooking tz now newId s usr body of
        (s1, r) \<Rightarrow> (case createAll tz now s1 rest of (s2, rs) \<Rightarrow> (s2, r # rs)))"

section \<open>Example data\<close>

text \<open>10:00 and 15:30 UTC on 2025-06-01, and noon of the day before as the present.\<close>

definition june1_10h :: int where "june1_10h = 1748772000000"
definition june1_15h30 :: int where "june1_15h30 = 1748791800000"
definition may31_12h :: int where "may31_12h = 1748692800000"

text \<open>10:00 UTC on 2025-06-02.\<close>

definition june2_10h :: int where "june2_10h = 1748858400000"

definition superadmin :: reqUser where
  "superadmin = \<lparr>ru_id = ''d0'', ru_role = ''Superadmin''\<rparr>"

definition customer :: reqUser where
  "customer = \<lparr>ru_id = ''d1'', ru_role = ''Customer''\<rparr>"

definition bookingOf :: "objectId \<Rightarrow> objectId \<Rightarrow> objectId \<Rightarrow> string \<Rightarrow> int \<Rightarrow> booking" where
  "bookingOf i t c st d =
     \<lparr>b_id = i, b_user = ''d1'', b_test = t, b_hcs = c, b_status = st,
      b_scheduledAt = d, b_priceAtBooking = Some 300\<rparr>"

text \<open>Center X of scenario A: default capacity 2 and no override; test T is offered there at 300.\<close>

definition centerX :: center where
  "centerX = \<lparr>c_id = ''c1'', c_admin = ''d2'', c_availableSlotsPerDay = 2, c_testSlots = []\<rparr>"

definition testT :: test where
  "testT = \<lparr>t_id = ''a1'', t_price = 250,
            t_hcsPricing = [\<lparr>p_hcs = ''c1'', p_price = 300, p_status = ''approved''\<rparr>]\<rparr>"

definition dbA :: "booking list \<Rightarrow> db" where
  "dbA bs = \<lparr>bookings = bs, tests = [testT], centers = [centerX], requests = [],
             users = [\<lparr>u_id = ''d1'', u_phone = None\<rparr>]\<rparr>"

text \<open>A second test, which center X has only asked for: its pricing entry is still pending.\<close>

definition testU :: test where
  "testU = \<lparr>t_id = ''a2'', t_price = 80,
            t_hcsPricing = [\<lparr>p_hcs = ''c1'', p_price = 100, p_status = ''pending''\<rparr>]\<rparr>"

text \<open>Center X with a default capacity of two and a half, which the schema accepts.\<close>

definition centerXhalf :: center where
  "centerXhalf = \<lparr>c_id = ''c1'', c_admin = ''d2'', c_availableSlotsPerDay = 5 / 2,
                  c_testSlots = []\<rparr>"

text \<open>Center X after its default was raised to 5 and test T was given an override of 2.\<close>

definition centerX52 :: center where
  "centerX52 = \<lparr>c_id = ''c1'', c_admin = ''d2'', c_availableSlotsPerDay = 5,
                c_testSlots = [\<lparr>ts_test = ''a1'', ts_slotsPerDay = 2\<rparr>]\<rparr>"

text \<open>
  A request of center X for test T at price 500 that was approved, in a store where the
  pricing entry has since been set to 300 by a direct assignment.
\<close>

definition requestR :: request where
  "requestR = \<lparr>r_id = ''f1'', r_test = ''a1'', r_hcs = ''c1'', r_requestedPrice = 500,
               r_status = ''approved'', r_requestedBy = ''d2'', r_reviewedBy = Some ''d0'',
               r_notes = None\<rparr>"

definition dbR :: "request \<Rightarrow> test \<Rightarrow> db" where
  "dbR r t = \<lparr>bookings = [], tests = [t], centers = [centerX], requests = [r], users = []\<rparr>"

text \<open>
  Scenario B: center Y has a default capacity of 5 and an override of one slot for test T;
  tests T and V are both offered there.
\<close>

definition centerY :: center where
  "centerY = \<lparr>c_id = ''c2'', c_admin = ''d3'', c_availableSlotsPerDay = 5,
              c_testSlots = [\<lparr>ts_test = ''a1'', ts_slotsPerDay = 1\<rparr>]\<rparr>"

definition dbB :: db where
  "dbB = \<lparr>bookings = [],
          tests = [\<lparr>t_id = ''a1'', t_price = 250,
                    t_hcsPricing = [\<lparr>p_hcs = ''c2'', p_price = 300, p_status = ''approved''\<rparr>]\<rparr>,
                   \<lparr>t_id = ''a3'', t_price = 90,
                    t_hcsPricing = [\<lparr>p_hcs = ''c2'', p_price = 120, p_status = ''approved''\<rparr>]\<rparr>],
          centers = [centerY], requests = [], users = []\<rparr>"

section \<open>Lookups and updates in a collection\<close>

lemmas ex_defs = dbA_def centerX_def testT_def bookingOf_def june1_10h_def june1_15h30_def
  may31_12h_def superadmin_def customer_def castObjectId_def lowerHex_def

lemma findById_Some_key: "findById key ds i = Some d \<Longrightarrow> key d = i \<and> d \<in> set ds"
  unfolding findById_def by (induction ds) (auto split: if_splits)

lemma findById_None_iff: "findById key ds i = None \<longleftrightarrow> i \<notin> key ` set ds"
  unfolding findById_def by (induction ds) auto

lemma findById_append:
  "findById key (ds @ es) i = (case findById key ds i of Some d \<Rightarrow> Some d | None \<Rightarrow> findById key es i)"
  unfolding findById_def by (induction ds) auto

lemma findById_updateFirst_same:
  "findById key ds i = Some d \<Longrightarrow> key (f d) = i \<Longrightarrow> findById key (updateFirst key i f ds) i = Some (f d)"
  unfolding findById_def by (induction ds) (auto split: if_splits)

lemma length_filter_updateFirst:
  "findById key ds i = Some d \<Longrightarrow>
   length (filter P (updateFirst key i f ds)) + (if P d then 1 else 0)
     = length (filter P ds) + (if P (f d) then 1 else 0)"
  unfolding findById_def by (induction ds) (auto split: if_splits)

lemma length_filter_remove1:
  "d \<in> set ds \<Longrightarrow> P d \<Longrightarrow> length (filter P ds) = Suc (length (filter P (remove1 d ds)))"
  by (induction ds) auto

section \<open>The day of a timestamp\<close>

lemma div_day_iff:
  "(x::int) div 86400000 = q \<longleftrightarrow> q * 86400000 \<le> x \<and> x < q * 86400000 + 86400000"
proof
  assume "x div 86400000 = q"
  moreover have "x = (x div 86400000) * 86400000 + x mod 86400000" by simp
  moreover have "0 \<le> x mod 86400000" "x mod 86400000 < 86400000" by simp_all
  ultimately show "q * 86400000 \<le> x \<and> x < q * 86400000 + 86400000" by linarith
next
  assume a: "q * 86400000 \<le> x \<and> x < q * 86400000 + 86400000"
  have "x = 86400000 * q + (x - q * 86400000)" by simp
  moreover have "0 \<le> x - q * 86400000" "x - q * 86400000 < 86400000" using a by simp_all
  ultimately show "x div 86400000 = q"
    by (rule int_div_pos_eq)
qed

lemma setHours_start: "setHours tz d 0 0 0 0 = dayStart tz (localDay tz d)"
proof -
  define q where "q = (d + tz) div msPerDay"
  define r where "r = (d + tz) mod msPerDay"
  have "d + tz = q * msPerDay + r"
    by (simp add: q_def r_def)
  moreover have "setHours tz d 0 0 0 0 = d - r"
    by (simp add: setHours_def r_def)
  moreover have "dayStart tz (localDay tz d) = q * msPerDay - tz"
    by (simp add: dayStart_def localDay_def q_def)
  ultimately show ?thesis by linarith
qed

lemma setHours_end: "setHours tz d 23 59 59 999 = dayEnd tz (localDay tz d)"
proof -
  have "setHours tz d 23 59 59 999 = setHours tz d 0 0 0 0 + ((23 * 60 + 59) * 60 + 59) * 1000 + 999"
    by (simp add: setHours_def)
  then show ?thesis by (simp add: setHours_start dayEnd_def)
qed

lemma in_day:
  "dayStart tz (localDay tz d) \<le> t \<and> t \<le> dayEnd tz (localDay tz d)
     \<longleftrightarrow> localDay tz t = localDay tz d"
proof -
  define q where "q = localDay tz d"
  have "localDay tz t = q \<longleftrightarrow> q * 86400000 \<le> t + tz \<and> t + tz < q * 86400000 + 86400000"
    unfolding localDay_def msPerDay_def by (rule div_day_iff)
  also have "\<dots> \<longleftrightarrow> dayStart tz q \<le> t \<and> t \<le> dayEnd tz q"
    by (auto simp: dayStart_def dayEnd_def msPerDay_def)
  finally show ?thesis by (simp add: q_def)
qed

lemma countBookingsForDate_occupies:
  "countBookingsForDate tz bs C d = length (filter (occupies tz C d) bs)"
proof -
  have "(\<lambda>b. b_hcs b = C \<and> setHours tz d 0 0 0 0 \<le> b_scheduledAt b
             \<and> b_scheduledAt b \<le> setHours tz d 23 59 59 999 \<and> b_status b \<noteq> ''canceled'')
        = occupies tz C d"
    using in_day [of tz d] by (auto simp: occupies_def fun_eq_iff setHours_start setHours_end)
  then show ?thesis by (simp add: countBookingsForDate_def Let_def)
qed

section \<open>The slot counter\<close>

lemma cancel_frees:
  assumes c: "cancelBooking s usr i = (s', Success code b')"
      and f: "findById b_id (bookings s) (castObjectId i) = Some b"
      and st: "b_status b \<noteq> ''canceled''"
  shows "Suc (countBookingsForDate tz (bookings s') (b_hcs b) (b_scheduledAt b))
           = countBookingsForDate tz (bookings s) (b_hcs b) (b_scheduledAt b)"
proof -
  let ?doc = "b\<lparr>b_status := ''canceled''\<rparr>"
  let ?P = "occupies tz (b_hcs b) (b_scheduledAt b)"
  from c f have s': "bookings s' = updateFirst b_id (b_id b) (\<lambda>_. ?doc) (bookings s)"
    by (auto simp: cancelBooking_def bookingPreSave_def Let_def split: if_splits)
  from f have f': "findById b_id (bookings s) (b_id b) = Some b"
    using findById_Some_key [OF f] by simp
  have "?P b" using st by (simp add: occupies_def)
  moreover have "\<not> ?P ?doc" by (simp add: occupies_def)
  ultimately show ?thesis
    using length_filter_updateFirst [OF f', of ?P "\<lambda>_. ?doc"]
    by (simp add: countBookingsForDate_occupies s')
qed

lemma countBookingsForDate_countOccupied:
  "countBookingsForDate tz bs C d = countOccupied_spec tz bs C (localDay tz d)"
  by (simp add: countBookingsForDate_def countOccupied_spec_def Let_def setHours_start setHours_end)

text \<open>
  C3. \<open>countBookingsForDate\<close> is the specification's \<open>countOccupied\<close> for the calendar day
  of its date argument: it counts the bookings of the center, whatever their test, whose
  timestamp lies in the closed interval from 00:00:00.000 to 23:59:59.999 of that day and
  whose status is not canceled. Canceled bookings contribute nothing, rewriting the test of
  every booking does not change the count, and a successful cancelBooking of a booking that
  was not yet canceled lowers the count of its center and day by exactly one.
\<close>

theorem countBookingsForDate_spec:
  "countBookingsForDate tz bs C d = countOccupied_spec tz bs C (localDay tz d)
   \<and> countBookingsForDate tz (filter (\<lambda>b. b_status b = ''canceled'') bs) C d = 0
   \<and> countBookingsForDate tz (map (\<lambda>b. b\<lparr>b_test := T\<rparr>) bs) C d = countBookingsForDate tz bs C d
   \<and> (cancelBooking s usr i = (s', Success code b')
        \<and> findById b_id (bookings s) (castObjectId i) = Some b
        \<and> b_status b \<noteq> ''canceled''
      \<longrightarrow> Suc (countBookingsForDate tz (bookings s') (b_hcs b) (b_scheduledAt b))
           = countBookingsForDate tz (bookings s) (b_hcs b) (b_scheduledAt b))"
proof (intro conjI impI)
  show "countBookingsForDate tz bs C d = countOccupied_spec tz bs C (localDay tz d)"
    by (simp add: countBookingsForDate_def countOccupied_spec_def Let_def setHours_start setHours_end)
  show "countBookingsForDate tz (filter (\<lambda>b. b_status b = ''canceled'') bs) C d = 0"
    by (simp add: countBookingsForDate_def Let_def)
  show "countBookingsForDate tz (map (\<lambda>b. b\<lparr>b_test := T\<rparr>) bs) C d = countBookingsForDate tz bs C d"
    by (simp add: countBookingsForDate_def Let_def filter_map o_def)
next
  assume "cancelBooking s usr i = (s', Success code b')
        \<and> findById b_id (bookings s) (castObjectId i) = Some b
        \<and> b_status b \<noteq> ''canceled''"
  then show "Suc (countBookingsForDate tz (bookings s') (b_hcs b) (b_scheduledAt b))
           = countBookingsForDate tz (bookings s) (b_hcs b) (b_scheduledAt b)"
    using cancel_frees by blast
qed

theorem countBookingsForDate_spec_witness:
  "cancelBooking (dbA [bookingOf ''b1'' ''a1'' ''c1'' ''pending'' june1_10h,
                       bookingOf ''b2'' ''a1'' ''c1'' ''confirmed'' june1_15h30]) customer ''b1''
     = (dbA [bookingOf ''b1'' ''a1'' ''c1'' ''canceled'' june1_10h,
             bookingOf ''b2'' ''a1'' ''c1'' ''confirmed'' june1_15h30],
        Success 200 (bookingOf ''b1'' ''a1'' ''c1'' ''canceled'' june1_10h))
   \<and> findById b_id (bookings (dbA [bookingOf ''b1'' ''a1'' ''c1'' ''pending'' june1_10h,
                       bookingOf ''b2'' ''a1'' ''c1'' ''confirmed'' june1_15h30]))
       (castObjectId ''b1'')
       = Some (bookingOf ''b1'' ''a1'' ''c1'' ''pending'' june1_10h)
   \<and> b_status (bookingOf ''b1'' ''a1'' ''c1'' ''pending'' june1_10h) \<noteq> ''canceled''
   \<and> countBookingsForDate 0 [bookingOf ''b1'' ''a1'' ''c1'' ''pending'' june1_10h,
                       bookingOf ''b2'' ''a1'' ''c1'' ''confirmed'' june1_15h30] ''c1'' june1_10h = 2
   \<and> countBookingsForDate 0 [bookingOf ''b1'' ''a1'' ''c1'' ''canceled'' june1_10h,
                       bookingOf ''b2'' ''a1'' ''c1'' ''confirmed'' june1_15h30] ''c1'' june1_10h = 1"
proof -
  let ?s = "dbA [bookingOf ''b1'' ''a1'' ''c1'' ''pending'' june1_10h,
                 bookingOf ''b2'' ''a1'' ''c1'' ''confirmed'' june1_15h30]"
  let ?s' = "dbA [bookingOf ''b1'' ''a1'' ''c1'' ''canceled'' june1_10h,
                  bookingOf ''b2'' ''a1'' ''c1'' ''confirmed'' june1_15h30]"
  let ?b = "bookingOf ''b1'' ''a1'' ''c1'' ''pending'' june1_10h"
  have c: "cancelBooking ?s customer ''b1'' = (?s', Success 200 (bookingOf ''b1'' ''a1'' ''c1'' ''canceled'' june1_10h))"
    by (simp add: cancelBooking_def findById_def hcsAdminDenied_def bookingPreSave_def Let_def ex_defs)
  have f: "findById b_id (bookings ?s) (castObjectId ''b1'') = Some ?b"
    by (simp add: findById_def ex_defs)
  have n: "b_status ?b \<noteq> ''canceled''"
    by (simp add: ex_defs)
  have k: "countBookingsForDate 0 (bookings ?s') ''c1'' june1_10h = 1"
    by (simp add: countBookingsForDate_def setHours_def msPerDay_def ex_defs)
  from countBookingsForDate_spec [of 0 "[]" "''c1''" 0 "''a1''" ?s customer "''b1''" ?s' 200
      "bookingOf ''b1'' ''a1'' ''c1'' ''canceled'' june1_10h" ?b] c f n
  have "Suc (countBookingsForDate 0 (bookings ?s') (b_hcs ?b) (b_scheduledAt ?b))
           = countBookingsForDate 0 (bookings ?s) (b_hcs ?b) (b_scheduledAt ?b)"
    by blast
  then have "countBookingsForDate 0 (bookings ?s) ''c1'' june1_10h = 2"
    using k by (simp add: bookingOf_def)
  then show ?thesis using c f n k by (simp add: dbA_def)
qed

section \<open>The capacity store\<close>





lemma getSlotsForTest_spec: "getSlotsForTest c T = capacityFor_spec c T"
proof -
  have "map_option ts_slotsPerDay (find (\<lambda>slot. ts_test slot = T) xs)
          = map_of (map (\<lambda>slot. (ts_test slot, ts_slotsPerDay slot)) xs) T" for xs
    by (induction xs) auto
  from this [of "c_testSlots c"] show ?thesis
    by (auto simp: getSlotsForTest_def capacityFor_spec_def overrides_def split: option.splits)
qed





section \<open>Admission control\<close>

lemma bookingPreSave_fields:
  "b_id (bookingPreSave n ts b) = b_id b"
  "b_user (bookingPreSave n ts b) = b_user b"
  "b_test (bookingPreSave n ts b) = b_test b"
  "b_hcs (bookingPreSave n ts b) = b_hcs b"
  "b_status (bookingPreSave n ts b) = b_status b"
  "b_scheduledAt (bookingPreSave n ts b) = b_scheduledAt b"
  by (simp_all add: bookingPreSave_def split: option.splits)

text \<open>What a successful createBooking has checked and what it has stored.\<close>

lemma createBooking_Success:
  assumes "createBooking tz now newId s usr body = (s', Success code b)"
  shows "\<exists>testId hcsId hcsDoc.
           cr_test body = Some testId \<and> cr_hcs body = Some hcsId
         \<and> b_test b = castObjectId testId \<and> b_hcs b = castObjectId hcsId
         \<and> cr_scheduledAt body = Some (Date (b_scheduledAt b))
         \<and> findById c_id (centers s) (b_hcs b) = Some hcsDoc
         \<and> of_nat (countBookingsForDate tz (bookings s) (b_hcs b) (b_scheduledAt b))
             < getSlotsForTest hcsDoc testId
         \<and> b_status b = ''pending'' \<and> b_id b = newId \<and> b_user b = castObjectId (ru_id usr)
         \<and> now < b_scheduledAt b
         \<and> bookings s' = bookings s @ [b] \<and> tests s' = tests s \<and> centers s' = centers s
         \<and> requests s' = requests s \<and> code = 201"
proof -
  from assms obtain testId hcsId sd where body:
    "cr_test body = Some testId" "cr_hcs body = Some hcsId" "cr_scheduledAt body = Some sd"
    by (auto simp: createBooking_def split: option.splits)
  from assms body obtain testDoc where
    t: "findById t_id (tests s) (castObjectId testId) = Some testDoc"
    by (auto simp: createBooking_def split: option.splits)
  from assms body t obtain hcsDoc where
    c: "findById c_id (centers s) (castObjectId hcsId) = Some hcsDoc"
    by (auto simp: createBooking_def split: option.splits)
  from assms body t c obtain d where d: "sd = Date d"
    by (cases sd) (auto simp: createBooking_def split: option.splits)
  from assms body t c d show ?thesis
    by (auto simp: createBooking_def Let_def bookingPreSave_fields
             split: option.splits if_splits)
qed

lemma applyUpdate_confirmBody: "applyUpdate confirmBody b = b\<lparr>b_status := ''confirmed''\<rparr>"
  by (simp add: applyUpdate_def confirmBody_def)

text \<open>What a successful confirmation of a booking that was not confirmed has checked and stored.\<close>

lemma updateBooking_confirm_Success:
  assumes f: "findById b_id (bookings s) (castObjectId i) = Some b"
      and st: "b_status b \<noteq> ''confirmed''"
      and n: "ub_status body = Some ''confirmed''"
      and u: "updateBooking tz s usr i body = (s', Success code b')"
  shows "\<exists>hcsDoc.
           findById c_id (centers s) (b_hcs b) = Some hcsDoc
         \<and> of_nat (countBookingsForDate tz (bookings s) (b_hcs b) (b_scheduledAt b))
             < getSlotsForTest hcsDoc (b_test b)
         \<and> b' = Some (applyUpdate body b)
         \<and> bookings s' = updateFirst b_id (castObjectId i) (applyUpdate body) (bookings s)
         \<and> centers s' = centers s \<and> code = 200"
proof -
  from u f st n obtain hcsDoc where c: "findById c_id (centers s) (b_hcs b) = Some hcsDoc"
    by (auto simp: updateBooking_def Let_def split: if_splits option.splits)
  from u f st n c show ?thesis
    by (auto simp: updateBooking_def findByIdAndUpdateBooking_def Let_def
             split: if_splits)
qed

lemma of_nat_Suc_le_Ints:
  assumes "q \<in> \<int>" and "of_nat n < (q::rat)"
  shows "of_nat (Suc n) \<le> q"
proof -
  from assms(1) obtain z where z: "q = of_int z" by (rule Ints_cases)
  from assms(2) have "int n < z"
    unfolding z by (metis of_int_less_iff of_int_of_nat_eq)
  then have "int (Suc n) \<le> z" by simp
  then show ?thesis
    unfolding z by (metis of_int_le_iff of_int_of_nat_eq)
qed

text \<open>
  C1, as stated, fails, in three ways. A slot count need not be an integer: with a default
  capacity of 2.5, which the schema's validators accept, a third booking is admitted at a
  count of 2, and the day then holds 3. An update that confirms a booking is checked on the
  booking's old day and written with the whole body: a pending booking of June 2 that is
  confirmed and moved to June 1 in one request is accepted although June 1 already holds
  two bookings at capacity 2. And a test id written in upper case finds the test but not
  its override of one slot, so the request is checked against the default of 5 and a second
  booking of the test is admitted.
\<close>

theorem admission_counterexample:
  "slotsValid (5 / 2)
   \<and> createBooking 0 may31_12h ''b3''
        ((dbA [bookingOf ''b1'' ''a1'' ''c1'' ''pending'' june1_10h,
               bookingOf ''b2'' ''a1'' ''c1'' ''pending'' june1_15h30])\<lparr>centers := [centerXhalf]\<rparr>)
        customer (createBodyOf ''a1'' ''c1'' june1_10h)
     = ((dbA [bookingOf ''b1'' ''a1'' ''c1'' ''pending'' june1_10h,
              bookingOf ''b2'' ''a1'' ''c1'' ''pending'' june1_15h30,
              bookingOf ''b3'' ''a1'' ''c1'' ''pending'' june1_10h])\<lparr>centers := [centerXhalf]\<rparr>,
        Success 201 (bookingOf ''b3'' ''a1'' ''c1'' ''pending'' june1_10h))
   \<and> countOccupied_spec 0 [bookingOf ''b1'' ''a1'' ''c1'' ''pending'' june1_10h,
                            bookingOf ''b2'' ''a1'' ''c1'' ''pending'' june1_15h30,
                            bookingOf ''b3'' ''a1'' ''c1'' ''pending'' june1_10h]
        ''c1'' (localDay 0 june1_10h) = 3
   \<and> capacityFor_spec centerXhalf ''a1'' = 5 / 2
   \<and> updateBooking 0
        (dbA [bookingOf ''b1'' ''a1'' ''c1'' ''pending'' june1_10h,
              bookingOf ''b2'' ''a1'' ''c1'' ''pending'' june1_15h30,
              bookingOf ''b3'' ''a1'' ''c1'' ''pending'' june2_10h])
        superadmin ''b3'' (confirmBody\<lparr>ub_scheduledAt := Some (Date june1_10h)\<rparr>)
     = (dbA [bookingOf ''b1'' ''a1'' ''c1'' ''pending'' june1_10h,
             bookingOf ''b2'' ''a1'' ''c1'' ''pending'' june1_15h30,
             bookingOf ''b3'' ''a1'' ''c1'' ''confirmed'' june1_10h],
        Success 200 (Some (bookingOf ''b3'' ''a1'' ''c1'' ''confirmed'' june1_10h)))
   \<and> countOccupied_spec 0 [bookingOf ''b1'' ''a1'' ''c1'' ''pending'' june1_10h,
                            bookingOf ''b2'' ''a1'' ''c1'' ''pending'' june1_15h30,
                            bookingOf ''b3'' ''a1'' ''c1'' ''confirmed'' june1_10h]
        ''c1'' (localDay 0 june1_10h) = 3
   \<and> capacityFor_spec centerX ''a1'' = 2
   \<and> createBooking 0 may31_12h ''b2''
        (dbB\<lparr>bookings := [bookingOf ''b1'' ''a1'' ''c2'' ''pending'' june1_10h]\<rparr>)
        customer (createBodyOf ''A1'' ''c2'' june1_15h30)
     = (dbB\<lparr>bookings := [bookingOf ''b1'' ''a1'' ''c2'' ''pending'' june1_10h,
                           bookingOf ''b2'' ''a1'' ''c2'' ''pending'' june1_15h30]\<rparr>,
        Success 201 (bookingOf ''b2'' ''a1'' ''c2'' ''pending'' june1_15h30))
   \<and> countOccupied_spec 0 [bookingOf ''b1'' ''a1'' ''c2'' ''pending'' june1_10h,
                            bookingOf ''b2'' ''a1'' ''c2'' ''pending'' june1_15h30]
        ''c2'' (localDay 0 june1_10h) = 2
   \<and> capacityFor_spec centerY ''a1'' = 1"
proof -
  have a: "slotsValid (5 / 2)" by (simp add: slotsValid_def)
  moreover have "createBooking 0 may31_12h ''b3''
        ((dbA [bookingOf ''b1'' ''a1'' ''c1'' ''pending'' june1_10h,
               bookingOf ''b2'' ''a1'' ''c1'' ''pending'' june1_15h30])\<lparr>centers := [centerXhalf]\<rparr>)
        customer (createBodyOf ''a1'' ''c1'' june1_10h)
     = ((dbA [bookingOf ''b1'' ''a1'' ''c1'' ''pending'' june1_10h,
              bookingOf ''b2'' ''a1'' ''c1'' ''pending'' june1_15h30,
              bookingOf ''b3'' ''a1'' ''c1'' ''pending'' june1_10h])\<lparr>centers := [centerXhalf]\<rparr>,
        Success 201 (bookingOf ''b3'' ''a1'' ''c1'' ''pending'' june1_10h))"
    by (simp add: createBooking_def createBodyOf_def findById_def countBookingsForDate_def
        setHours_def msPerDay_def getSlotsForTest_def truthy_def bookingPreSave_def Let_def
        centerXhalf_def ex_defs)
  moreover have "countOccupied_spec 0 [bookingOf ''b1'' ''a1'' ''c1'' ''pending'' june1_10h,
                            bookingOf ''b2'' ''a1'' ''c1'' ''pending'' june1_15h30,
                            bookingOf ''b3'' ''a1'' ''c1'' ''pending'' june1_10h]
        ''c1'' (localDay 0 june1_10h) = 3"
    by (simp add: countOccupied_spec_def dayStart_def dayEnd_def localDay_def msPerDay_def ex_defs)
  moreover have "capacityFor_spec centerXhalf ''a1'' = 5 / 2"
    by (simp add: capacityFor_spec_def overrides_def centerXhalf_def)
  moreover have "updateBooking 0
        (dbA [bookingOf ''b1'' ''a1'' ''c1'' ''pending'' june1_10h,
              bookingOf ''b2'' ''a1'' ''c1'' ''pending'' june1_15h30,
              bookingOf ''b3'' ''a1'' ''c1'' ''pending'' june2_10h])
        superadmin ''b3'' (confirmBody\<lparr>ub_scheduledAt := Some (Date june1_10h)\<rparr>)
     = (dbA [bookingOf ''b1'' ''a1'' ''c1'' ''pending'' june1_10h,
             bookingOf ''b2'' ''a1'' ''c1'' ''pending'' june1_15h30,
             bookingOf ''b3'' ''a1'' ''c1'' ''confirmed'' june1_10h],
        Success 200 (Some (bookingOf ''b3'' ''a1'' ''c1'' ''confirmed'' june1_10h)))"
    by (simp add: updateBooking_def findByIdAndUpdateBooking_def applyUpdate_def confirmBody_def
        hcsAdminDenied_def bookingStatusEnum_def findById_def countBookingsForDate_def
        setHours_def msPerDay_def getSlotsForTest_def Let_def june2_10h_def ex_defs)
  moreover have "countOccupied_spec 0 [bookingOf ''b1'' ''a1'' ''c1'' ''pending'' june1_10h,
                            bookingOf ''b2'' ''a1'' ''c1'' ''pending'' june1_15h30,
                            bookingOf ''b3'' ''a1'' ''c1'' ''confirmed'' june1_10h]
        ''c1'' (localDay 0 june1_10h) = 3"
    by (simp add: countOccupied_spec_def dayStart_def dayEnd_def localDay_def msPerDay_def ex_defs)
  moreover have "capacityFor_spec centerX ''a1'' = 2"
    by (simp add: capacityFor_spec_def overrides_def centerX_def)
  moreover have "createBooking 0 may31_12h ''b2''
        (dbB\<lparr>bookings := [bookingOf ''b1'' ''a1'' ''c2'' ''pending'' june1_10h]\<rparr>)
        customer (createBodyOf ''A1'' ''c2'' june1_15h30)
     = (dbB\<lparr>bookings := [bookingOf ''b1'' ''a1'' ''c2'' ''pending'' june1_10h,
                           bookingOf ''b2'' ''a1'' ''c2'' ''pending'' june1_15h30]\<rparr>,
        Success 201 (bookingOf ''b2'' ''a1'' ''c2'' ''pending'' june1_15h30))"
    by (simp add: createBooking_def createBodyOf_def findById_def countBookingsForDate_def
        setHours_def msPerDay_def getSlotsForTest_def truthy_def bookingPreSave_def Let_def
        dbB_def centerY_def ex_defs)
  moreover have "countOccupied_spec 0 [bookingOf ''b1'' ''a1'' ''c2'' ''pending'' june1_10h,
                            bookingOf ''b2'' ''a1'' ''c2'' ''pending'' june1_15h30]
        ''c2'' (localDay 0 june1_10h) = 2"
    by (simp add: countOccupied_spec_def dayStart_def dayEnd_def localDay_def msPerDay_def ex_defs)
  moreover have "capacityFor_spec centerY ''a1'' = 1"
    by (simp add: capacityFor_spec_def overrides_def centerY_def)
  ultimately show ?thesis by blast
qed

text \<open>
  C1, amended. After a successful createBooking whose test id is written as the id is
  stored, at a center whose capacity for the test is an integer, the center is still there
  and the specification's count of non-canceled bookings of the center on the day of the
  booking is at most the specification's capacity for (center, test). After a successful
  update of a pending booking whose body sets the status to confirmed and leaves the
  scheduled time, the center and the test alone, the stored booking is confirmed on the same
  day at the same center for the same test, and that count is below that capacity.
\<close>

theorem admission_invariant:
  "(createBooking tz now newId s usr body = (s', Success code b)
      \<and> cr_test body = Some (b_test b)
      \<and> findById c_id (centers s) (b_hcs b) = Some c
      \<and> capacityFor_spec c (b_test b) \<in> \<int>
    \<longrightarrow> cr_scheduledAt body = Some (Date (b_scheduledAt b))
        \<and> findById c_id (centers s') (b_hcs b) = Some c
        \<and> of_nat (countOccupied_spec tz (bookings s') (b_hcs b) (localDay tz (b_scheduledAt b)))
             \<le> capacityFor_spec c (b_test b))
   \<and> (findById b_id (bookings t) (castObjectId i) = Some b0 \<and> b_status b0 = ''pending''
      \<and> ub_status ubody = Some ''confirmed'' \<and> ub_scheduledAt ubody = None
      \<and> ub_hcs ubody = None \<and> ub_test ubody = None
      \<and> updateBooking tz t adm i ubody = (t', Success code' b1)
    \<longrightarrow> (\<exists>b' c0. b1 = Some b' \<and> findById b_id (bookings t') (castObjectId i) = Some b'
            \<and> b_status b' = ''confirmed'' \<and> b_hcs b' = b_hcs b0 \<and> b_test b' = b_test b0
            \<and> b_scheduledAt b' = b_scheduledAt b0
            \<and> findById c_id (centers t') (b_hcs b0) = Some c0
            \<and> of_nat (countOccupied_spec tz (bookings t') (b_hcs b0)
                        (localDay tz (b_scheduledAt b0)))
                 < capacityFor_spec c0 (b_test b0)))"
proof (intro conjI impI)
  assume a: "createBooking tz now newId s usr body = (s', Success code b)
      \<and> cr_test body = Some (b_test b)
      \<and> findById c_id (centers s) (b_hcs b) = Some c
      \<and> capacityFor_spec c (b_test b) \<in> \<int>"
  then have ok: "createBooking tz now newId s usr body = (s', Success code b)" by simp
  from createBooking_Success [OF ok] a obtain hcsDoc where h:
    "cr_scheduledAt body = Some (Date (b_scheduledAt b))"
    "findById c_id (centers s) (b_hcs b) = Some hcsDoc"
    "of_nat (countBookingsForDate tz (bookings s) (b_hcs b) (b_scheduledAt b))
       < getSlotsForTest hcsDoc (b_test b)"
    "b_status b = ''pending''" "bookings s' = bookings s @ [b]" "centers s' = centers s"
    by auto
  from h(2) a have c: "hcsDoc = c" by simp
  show "cr_scheduledAt body = Some (Date (b_scheduledAt b))" by (fact h(1))
  show "findById c_id (centers s') (b_hcs b) = Some c" using h(2,6) c by simp
  have "occupies tz (b_hcs b) (b_scheduledAt b) b"
    using h(4) by (simp add: occupies_def)
  then have "countBookingsForDate tz (bookings s') (b_hcs b) (b_scheduledAt b)
               = Suc (countBookingsForDate tz (bookings s) (b_hcs b) (b_scheduledAt b))"
    by (simp add: countBookingsForDate_occupies h(5))
  moreover have "of_nat (Suc (countBookingsForDate tz (bookings s) (b_hcs b) (b_scheduledAt b)))
                   \<le> capacityFor_spec c (b_test b)"
    using a h(3) c by (intro of_nat_Suc_le_Ints) (simp_all add: getSlotsForTest_spec)
  ultimately
  show "of_nat (countOccupied_spec tz (bookings s') (b_hcs b) (localDay tz (b_scheduledAt b)))
          \<le> capacityFor_spec c (b_test b)"
    by (simp add: countBookingsForDate_countOccupied [symmetric])
next
  assume a: "findById b_id (bookings t) (castObjectId i) = Some b0 \<and> b_status b0 = ''pending''
      \<and> ub_status ubody = Some ''confirmed'' \<and> ub_scheduledAt ubody = None
      \<and> ub_hcs ubody = None \<and> ub_test ubody = None
      \<and> updateBooking tz t adm i ubody = (t', Success code' b1)"
  then have f: "findById b_id (bookings t) (castObjectId i) = Some b0"
    and st: "b_status b0 \<noteq> ''confirmed''"
    and n: "ub_status ubody = Some ''confirmed''"
    and u: "updateBooking tz t adm i ubody = (t', Success code' b1)"
    by simp_all
  let ?f = "applyUpdate ubody"
  let ?P = "occupies tz (b_hcs b0) (b_scheduledAt b0)"
  from updateBooking_confirm_Success [OF f st n u] obtain hcsDoc where h:
    "findById c_id (centers t) (b_hcs b0) = Some hcsDoc"
    "of_nat (countBookingsForDate tz (bookings t) (b_hcs b0) (b_scheduledAt b0))
       < getSlotsForTest hcsDoc (b_test b0)"
    "b1 = Some (?f b0)" "bookings t' = updateFirst b_id (castObjectId i) ?f (bookings t)"
    "centers t' = centers t"
    by blast
  have same: "b_status (?f b0) = ''confirmed''" "b_hcs (?f b0) = b_hcs b0"
    "b_test (?f b0) = b_test b0" "b_scheduledAt (?f b0) = b_scheduledAt b0" "b_id (?f b0) = b_id b0"
    using a by (simp_all add: applyUpdate_def)
  have "b_id (?f b0) = castObjectId i" using findById_Some_key [OF f] same(5) by simp
  from findById_updateFirst_same [of b_id "bookings t" "castObjectId i" b0 ?f, OF f this]
  have found: "findById b_id (bookings t') (castObjectId i) = Some (?f b0)" by (simp add: h(4))
  have "?P b0" "?P (?f b0)" using a same by (simp_all add: occupies_def)
  with length_filter_updateFirst [OF f, of ?P ?f]
  have "countBookingsForDate tz (bookings t') (b_hcs b0) (b_scheduledAt b0)
          = countBookingsForDate tz (bookings t) (b_hcs b0) (b_scheduledAt b0)"
    by (simp add: countBookingsForDate_occupies h(4))
  with h(2)
  have "of_nat (countOccupied_spec tz (bookings t') (b_hcs b0) (localDay tz (b_scheduledAt b0)))
          < capacityFor_spec hcsDoc (b_test b0)"
    by (simp add: countBookingsForDate_countOccupied [symmetric] getSlotsForTest_spec)
  with h(1,3,5) found same
  show "\<exists>b' c0. b1 = Some b' \<and> findById b_id (bookings t') (castObjectId i) = Some b'
            \<and> b_status b' = ''confirmed'' \<and> b_hcs b' = b_hcs b0 \<and> b_test b' = b_test b0
            \<and> b_scheduledAt b' = b_scheduledAt b0
            \<and> findById c_id (centers t') (b_hcs b0) = Some c0
            \<and> of_nat (countOccupied_spec tz (bookings t') (b_hcs b0)
                        (localDay tz (b_scheduledAt b0)))
                 < capacityFor_spec c0 (b_test b0)"
    by simp
qed

theorem admission_invariant_witness:
  "createBooking 0 may31_12h ''b2'' (dbA [bookingOf ''b1'' ''a1'' ''c1'' ''pending'' june1_10h]) customer
       (createBodyOf ''a1'' ''c1'' june1_15h30)
     = (dbA [bookingOf ''b1'' ''a1'' ''c1'' ''pending'' june1_10h,
             bookingOf ''b2'' ''a1'' ''c1'' ''pending'' june1_15h30],
        Success 201 (bookingOf ''b2'' ''a1'' ''c1'' ''pending'' june1_15h30))
   \<and> capacityFor_spec centerX ''a1'' = 2
   \<and> of_nat (countOccupied_spec 0 [bookingOf ''b1'' ''a1'' ''c1'' ''pending'' june1_10h,
                                    bookingOf ''b2'' ''a1'' ''c1'' ''pending'' june1_15h30]
               ''c1'' (localDay 0 june1_15h30)) \<le> capacityFor_spec centerX ''a1''
   \<and> findById b_id (bookings (dbA [bookingOf ''b1'' ''a1'' ''c1'' ''pending'' june1_10h]))
        (castObjectId ''b1'')
       = Some (bookingOf ''b1'' ''a1'' ''c1'' ''pending'' june1_10h)
   \<and> updateBooking 0 (dbA [bookingOf ''b1'' ''a1'' ''c1'' ''pending'' june1_10h]) superadmin ''b1'' confirmBody
       = (dbA [bookingOf ''b1'' ''a1'' ''c1'' ''confirmed'' june1_10h],
          Success 200 (Some (bookingOf ''b1'' ''a1'' ''c1'' ''confirmed'' june1_10h)))
   \<and> (\<exists>c0. findById c_id (centers (dbA [bookingOf ''b1'' ''a1'' ''c1'' ''confirmed'' june1_10h])) ''c1''
               = Some c0
          \<and> of_nat (countOccupied_spec 0 [bookingOf ''b1'' ''a1'' ''c1'' ''confirmed'' june1_10h]
                      ''c1'' (localDay 0 june1_10h)) < capacityFor_spec c0 ''a1'')"
proof -
  let ?b1 = "bookingOf ''b1'' ''a1'' ''c1'' ''pending'' june1_10h"
  let ?b1' = "bookingOf ''b1'' ''a1'' ''c1'' ''confirmed'' june1_10h"
  let ?b2 = "bookingOf ''b2'' ''a1'' ''c1'' ''pending'' june1_15h30"
  let ?body = "createBodyOf ''a1'' ''c1'' june1_15h30"
  have c: "createBooking 0 may31_12h ''b2'' (dbA [?b1]) customer ?body
             = (dbA [?b1, ?b2], Success 201 ?b2)"
    by (simp add: createBooking_def createBodyOf_def findById_def countBookingsForDate_def
        setHours_def msPerDay_def getSlotsForTest_def truthy_def bookingPreSave_def Let_def ex_defs)
  have canon: "cr_test ?body = Some (b_test ?b2)"
    by (simp add: createBodyOf_def bookingOf_def)
  have cx: "findById c_id (centers (dbA [?b1])) (b_hcs ?b2) = Some centerX"
    by (simp add: findById_def ex_defs)
  have cap: "capacityFor_spec centerX ''a1'' = 2"
    by (simp add: capacityFor_spec_def overrides_def centerX_def)
  have whole: "capacityFor_spec centerX (b_test ?b2) \<in> \<int>"
    using cap by (simp add: bookingOf_def)
  have f: "findById b_id (bookings (dbA [?b1])) (castObjectId ''b1'') = Some ?b1"
    by (simp add: findById_def ex_defs)
  have p: "b_status ?b1 = ''pending''"
    by (simp add: ex_defs)
  have body: "ub_status confirmBody = Some ''confirmed''" "ub_scheduledAt confirmBody = None"
    "ub_hcs confirmBody = None" "ub_test confirmBody = None"
    by (simp_all add: confirmBody_def)
  have u: "updateBooking 0 (dbA [?b1]) superadmin ''b1'' confirmBody
             = (dbA [?b1'], Success 200 (Some ?b1'))"
    by (simp add: updateBooking_def findByIdAndUpdateBooking_def applyUpdate_def confirmBody_def
        hcsAdminDenied_def bookingStatusEnum_def findById_def countBookingsForDate_def
        setHours_def msPerDay_def getSlotsForTest_def Let_def ex_defs)
  note inv = admission_invariant [where tz = 0 and now = may31_12h and newId = "''b2''"
      and s = "dbA [?b1]" and usr = customer and body = ?body
      and s' = "dbA [?b1, ?b2]" and code = 201 and b = ?b2 and c = centerX
      and t = "dbA [?b1]" and adm = superadmin and ubody = confirmBody
      and i = "''b1''" and ?b0.0 = ?b1 and t' = "dbA [?b1']" and code' = 200
      and ?b1.0 = "Some ?b1'"]
  from inv c canon cx whole
  have "of_nat (countOccupied_spec 0 (bookings (dbA [?b1, ?b2])) (b_hcs ?b2)
                  (localDay 0 (b_scheduledAt ?b2))) \<le> capacityFor_spec centerX (b_test ?b2)"
    by blast
  then have A: "of_nat (countOccupied_spec 0 [?b1, ?b2] ''c1'' (localDay 0 june1_15h30))
                  \<le> capacityFor_spec centerX ''a1''"
    by (simp add: bookingOf_def dbA_def)
  from inv f p body u
  have "\<exists>b' c0. findById c_id (centers (dbA [?b1'])) (b_hcs ?b1) = Some c0
          \<and> of_nat (countOccupied_spec 0 (bookings (dbA [?b1'])) (b_hcs ?b1)
                      (localDay 0 (b_scheduledAt ?b1))) < capacityFor_spec c0 (b_test ?b1)"
    by blast
  then have B: "\<exists>c0. findById c_id (centers (dbA [?b1'])) ''c1'' = Some c0
          \<and> of_nat (countOccupied_spec 0 [?b1'] ''c1'' (localDay 0 june1_10h))
               < capacityFor_spec c0 ''a1''"
    by (simp add: bookingOf_def dbA_def)
  from c cap A f u B show ?thesis by blast
qed
section \<open>Rejections\<close>

text \<open>
  The controller compares the center id of a pricing entry with the center id as the request
  wrote it. When the entries hold their ids as stored, a list without an approved entry for
  the center that the request's id is cast to has none for the request's id either.
\<close>

lemma no_approved_entry_raw:
  assumes "\<forall>p \<in> set ps. castObjectId (p_hcs p) = p_hcs p"
      and "\<forall>p \<in> set ps. \<not> (p_hcs p = castObjectId C \<and> p_status p = ''approved'')"
  shows "\<forall>p \<in> set ps. \<not> (p_hcs p = C \<and> p_status p = ''approved'')"
proof
  fix p assume p: "p \<in> set ps"
  show "\<not> (p_hcs p = C \<and> p_status p = ''approved'')"
  proof
    assume a: "p_hcs p = C \<and> p_status p = ''approved''"
    with assms(1) p have "castObjectId C = C" by auto
    with a assms(2) p show False by auto
  qed
qed

text \<open>
  C7. When the request names a test and a center that exist and gives a date, and the test
  has no pricing entry with status approved whose center id is the request's (so, by the
  lemma above, when it has none for the chosen center), createBooking answers 400 with the
  message that the test is not available at the selected healthcare center and leaves the
  store as it was; nothing is assumed about the bookings or the capacity of the center.
\<close>

theorem createBooking_not_offered:
  assumes "cr_test body = Some T" and "cr_hcs body = Some C" and "cr_scheduledAt body = Some sd"
      and "findById t_id (tests s) (castObjectId T) = Some t"
      and "findById c_id (centers s) (castObjectId C) = Some c"
      and "\<forall>p \<in> set (t_hcsPricing t). \<not> (p_hcs p = C \<and> p_status p = ''approved'')"
  shows "createBooking tz now newId s usr body
           = (s, Failure 400 ''Test is not available at the selected healthcare center'')"
proof -
  from assms(6) have "find (\<lambda>p. p_hcs p = C \<and> p_status p = ''approved'') (t_hcsPricing t) = None"
    by (simp add: find_None_iff)
  with assms(1-5) show ?thesis
    by (simp add: createBooking_def)
qed

theorem createBooking_not_offered_witness:
  "cr_test (createBodyOf ''a2'' ''c1'' june1_10h) = Some ''a2''
   \<and> cr_hcs (createBodyOf ''a2'' ''c1'' june1_10h) = Some ''c1''
   \<and> cr_scheduledAt (createBodyOf ''a2'' ''c1'' june1_10h) = Some (Date june1_10h)
   \<and> findById t_id (tests ((dbA [])\<lparr>tests := [testT, testU]\<rparr>)) (castObjectId ''a2'') = Some testU
   \<and> findById c_id (centers ((dbA [])\<lparr>tests := [testT, testU]\<rparr>)) (castObjectId ''c1'')
       = Some centerX
   \<and> map p_status (t_hcsPricing testU) = [''pending'']
   \<and> countBookingsForDate 0 (bookings ((dbA [])\<lparr>tests := [testT, testU]\<rparr>)) ''c1'' june1_10h = 0
   \<and> getSlotsForTest centerX ''a2'' = 2
   \<and> createBooking 0 may31_12h ''b1'' ((dbA [])\<lparr>tests := [testT, testU]\<rparr>) customer
        (createBodyOf ''a2'' ''c1'' june1_10h)
       = ((dbA [])\<lparr>tests := [testT, testU]\<rparr>,
          Failure 400 ''Test is not available at the selected healthcare center'')"
proof -
  let ?s = "(dbA [])\<lparr>tests := [testT, testU]\<rparr>"
  let ?body = "createBodyOf ''a2'' ''c1'' june1_10h"
  have b: "cr_test ?body = Some ''a2''" "cr_hcs ?body = Some ''c1''"
          "cr_scheduledAt ?body = Some (Date june1_10h)"
    by (simp_all add: createBodyOf_def)
  have t: "findById t_id (tests ?s) (castObjectId ''a2'') = Some testU"
    by (simp add: findById_def dbA_def testT_def testU_def castObjectId_def lowerHex_def)
  have c: "findById c_id (centers ?s) (castObjectId ''c1'') = Some centerX"
    by (simp add: findById_def dbA_def centerX_def castObjectId_def lowerHex_def)
  have n: "\<forall>p \<in> set (t_hcsPricing testU). \<not> (p_hcs p = ''c1'' \<and> p_status p = ''approved'')"
    by (simp add: testU_def)
  have k: "countBookingsForDate 0 (bookings ?s) ''c1'' june1_10h = 0"
    by (simp add: countBookingsForDate_def dbA_def)
  have g: "getSlotsForTest centerX ''a2'' = 2"
    by (simp add: getSlotsForTest_def centerX_def)
  have e: "map p_status (t_hcsPricing testU) = [''pending'']"
    by (simp add: testU_def)
  from createBooking_not_offered [OF b t c n, of 0 may31_12h "''b1''" customer] b t c e k g
  show ?thesis by simp
qed

text \<open>
  C10. When a pending booking is to be confirmed by a user who may update it, its center
  exists, and the number of non-canceled bookings of the center on the booking's day has
  reached the capacity for the booking's test, updateBooking answers 400 with the no-slots
  message and changes nothing. That number includes the booking itself: without it the
  count is one less; and applying the confirmation would leave the count as it is.
\<close>

theorem confirm_counts_itself:
  assumes f: "findById b_id (bookings s) (castObjectId i) = Some b"
      and p: "b_status b = ''pending''"
      and a: "\<not> hcsAdminDenied s usr b"
      and c: "findById c_id (centers s) (b_hcs b) = Some c"
      and n: "ub_status body = Some ''confirmed''"
      and full: "getSlotsForTest c (b_test b)
                   \<le> of_nat (countBookingsForDate tz (bookings s) (b_hcs b) (b_scheduledAt b))"
  shows "updateBooking tz s usr i body
           = (s, Failure 400 (noSlotsMessage (getSlotsForTest c (b_test b))))
       \<and> countBookingsForDate tz (bookings s) (b_hcs b) (b_scheduledAt b)
           = Suc (countBookingsForDate tz (remove1 b (bookings s)) (b_hcs b) (b_scheduledAt b))
       \<and> countBookingsForDate tz (updateFirst b_id (castObjectId i) (applyUpdate confirmBody) (bookings s))
             (b_hcs b) (b_scheduledAt b)
           = countBookingsForDate tz (bookings s) (b_hcs b) (b_scheduledAt b)"
proof (intro conjI)
  let ?P = "occupies tz (b_hcs b) (b_scheduledAt b)"
  show "updateBooking tz s usr i body
           = (s, Failure 400 (noSlotsMessage (getSlotsForTest c (b_test b))))"
    using f p a c n full by (simp add: updateBooking_def Let_def)
  have own: "?P b" using p by (simp add: occupies_def)
  have "b \<in> set (bookings s)" using findById_Some_key [OF f] by simp
  from length_filter_remove1 [OF this, of ?P] own
  show "countBookingsForDate tz (bookings s) (b_hcs b) (b_scheduledAt b)
           = Suc (countBookingsForDate tz (remove1 b (bookings s)) (b_hcs b) (b_scheduledAt b))"
    by (simp add: countBookingsForDate_occupies)
  have "?P (applyUpdate confirmBody b)"
    using p by (simp add: occupies_def applyUpdate_confirmBody)
  with length_filter_updateFirst [OF f, of ?P "applyUpdate confirmBody"] own
  show "countBookingsForDate tz (updateFirst b_id (castObjectId i) (applyUpdate confirmBody) (bookings s))
             (b_hcs b) (b_scheduledAt b)
           = countBookingsForDate tz (bookings s) (b_hcs b) (b_scheduledAt b)"
    by (simp add: countBookingsForDate_occupies)
qed

theorem confirm_counts_itself_witness:
  "findById b_id (bookings (dbA [bookingOf ''b1'' ''a1'' ''c1'' ''pending'' june1_10h,
                                 bookingOf ''b2'' ''a1'' ''c1'' ''pending'' june1_15h30]))
       (castObjectId ''b1'')
     = Some (bookingOf ''b1'' ''a1'' ''c1'' ''pending'' june1_10h)
   \<and> \<not> hcsAdminDenied (dbA [bookingOf ''b1'' ''a1'' ''c1'' ''pending'' june1_10h,
                              bookingOf ''b2'' ''a1'' ''c1'' ''pending'' june1_15h30])
          \<lparr>ru_id = ''d2'', ru_role = ''HCS Admin''\<rparr> (bookingOf ''b1'' ''a1'' ''c1'' ''pending'' june1_10h)
   \<and> getSlotsForTest centerX ''a1'' = 2
   \<and> countBookingsForDate 0 [bookingOf ''b1'' ''a1'' ''c1'' ''pending'' june1_10h,
                              bookingOf ''b2'' ''a1'' ''c1'' ''pending'' june1_15h30] ''c1'' june1_10h = 2
   \<and> countBookingsForDate 0 [bookingOf ''b2'' ''a1'' ''c1'' ''pending'' june1_15h30] ''c1'' june1_10h = 1
   \<and> updateBooking 0 (dbA [bookingOf ''b1'' ''a1'' ''c1'' ''pending'' june1_10h,
                            bookingOf ''b2'' ''a1'' ''c1'' ''pending'' june1_15h30])
        \<lparr>ru_id = ''d2'', ru_role = ''HCS Admin''\<rparr> ''b1'' confirmBody
       = (dbA [bookingOf ''b1'' ''a1'' ''c1'' ''pending'' june1_10h,
               bookingOf ''b2'' ''a1'' ''c1'' ''pending'' june1_15h30],
          Failure 400
            ''No available slots for the selected date. Maximum 2 bookings allowed per day for this test.'')"
proof -
  let ?b1 = "bookingOf ''b1'' ''a1'' ''c1'' ''pending'' june1_10h"
  let ?b2 = "bookingOf ''b2'' ''a1'' ''c1'' ''pending'' june1_15h30"
  let ?s = "dbA [?b1, ?b2]"
  let ?bob = "\<lparr>ru_id = ''d2'', ru_role = ''HCS Admin''\<rparr>"
  have f: "findById b_id (bookings ?s) (castObjectId ''b1'') = Some ?b1"
    by (simp add: findById_def ex_defs)
  have p: "b_status ?b1 = ''pending''" by (simp add: ex_defs)
  have a: "\<not> hcsAdminDenied ?s ?bob ?b1"
    by (simp add: hcsAdminDenied_def ex_defs)
  have c: "findById c_id (centers ?s) (b_hcs ?b1) = Some centerX"
    by (simp add: findById_def ex_defs)
  have n: "ub_status confirmBody = Some ''confirmed''" by (simp add: confirmBody_def)
  have g: "getSlotsForTest centerX ''a1'' = 2"
    by (simp add: getSlotsForTest_def centerX_def)
  have k: "countBookingsForDate 0 [?b2] ''c1'' june1_10h = 1"
    by (simp add: countBookingsForDate_def setHours_def msPerDay_def ex_defs)
  have k2: "countBookingsForDate 0 [?b1, ?b2] ''c1'' june1_10h = 2"
    by (simp add: countBookingsForDate_def setHours_def msPerDay_def ex_defs)
  have full: "getSlotsForTest centerX (b_test ?b1)
                \<le> of_nat (countBookingsForDate 0 (bookings ?s) (b_hcs ?b1) (b_scheduledAt ?b1))"
    using g k2 by (simp add: bookingOf_def dbA_def)
  have m: "noSlotsMessage 2
      = ''No available slots for the selected date. Maximum 2 bookings allowed per day for this test.''"
    by (simp add: noSlotsMessage_def showNumber_def)
  from confirm_counts_itself [OF f p a c n full]
  have "updateBooking 0 ?s ?bob ''b1'' confirmBody
          = (?s, Failure 400 (noSlotsMessage (getSlotsForTest centerX (b_test ?b1))))"
    by blast
  then have "updateBooking 0 ?s ?bob ''b1'' confirmBody = (?s, Failure 400 (noSlotsMessage 2))"
    using g by (simp add: bookingOf_def)
  then show ?thesis using f a g k k2 m by simp
qed

lemma noSlotsMessage_2:
  "noSlotsMessage 2
     = ''No available slots for the selected date. Maximum 2 bookings allowed per day for this test.''"
  by (simp add: noSlotsMessage_def showNumber_def)

text \<open>
  C6, as stated, fails. With default capacity 2 and two bookings on the day, the third
  booking is answered with status 400 and a message text that names the limit; the answer
  has no field for the limit and none for the occupancy. The same answer is given in a
  store where three bookings occupy the day (default 5, override 2 for the test), so the
  occupancy cannot be read off the error.
\<close>

theorem capacity_error_counterexample:
  "countBookingsForDate 0 (bookings (dbA [bookingOf ''b1'' ''a1'' ''c1'' ''pending'' june1_10h,
                                          bookingOf ''b2'' ''a1'' ''c1'' ''pending'' june1_15h30]))
      ''c1'' june1_10h = 2
   \<and> snd (createBooking 0 may31_12h ''b9''
             (dbA [bookingOf ''b1'' ''a1'' ''c1'' ''pending'' june1_10h,
                   bookingOf ''b2'' ''a1'' ''c1'' ''pending'' june1_15h30])
             customer (createBodyOf ''a1'' ''c1'' june1_10h))
       = Failure 400
           ''No available slots for the selected date. Maximum 2 bookings allowed per day for this test.''
   \<and> countBookingsForDate 0 (bookings ((dbA [bookingOf ''b1'' ''a1'' ''c1'' ''pending'' june1_10h,
                                          bookingOf ''b2'' ''a3'' ''c1'' ''pending'' june1_15h30,
                                          bookingOf ''b3'' ''a3'' ''c1'' ''confirmed'' june1_15h30])
                                       \<lparr>centers := [centerX52]\<rparr>))
      ''c1'' june1_10h = 3
   \<and> snd (createBooking 0 may31_12h ''b9''
             ((dbA [bookingOf ''b1'' ''a1'' ''c1'' ''pending'' june1_10h,
                    bookingOf ''b2'' ''a3'' ''c1'' ''pending'' june1_15h30,
                    bookingOf ''b3'' ''a3'' ''c1'' ''confirmed'' june1_15h30])
                \<lparr>centers := [centerX52]\<rparr>)
             customer (createBodyOf ''a1'' ''c1'' june1_10h))
       = Failure 400
           ''No available slots for the selected date. Maximum 2 bookings allowed per day for this test.''"
  by (simp add: createBooking_def createBodyOf_def findById_def countBookingsForDate_def
      setHours_def msPerDay_def getSlotsForTest_def Let_def noSlotsMessage_2 centerX52_def ex_defs)

text \<open>What createBooking answers when every earlier check passes and the day is full.\<close>

lemma createBooking_full:
  assumes "cr_test body = Some T" and "cr_hcs body = Some C"
      and "cr_scheduledAt body = Some (Date d)"
      and "findById t_id (tests s) (castObjectId T) = Some t"
      and "findById c_id (centers s) (castObjectId C) = Some c"
      and "find (\<lambda>p. p_hcs p = C \<and> p_status p = ''approved'') (t_hcsPricing t) = Some e"
      and "now < d"
      and "getSlotsForTest c T \<le> of_nat (countBookingsForDate tz (bookings s) (castObjectId C) d)"
  shows "createBooking tz now newId s usr body = (s, Failure 400 (noSlotsMessage (getSlotsForTest c T)))"
  using assms by (simp add: createBooking_def Let_def)

text \<open>
  C6, amended. When admission is refused for capacity, at creation or when a booking that
  is not confirmed is to be confirmed, the caller gets status 400 with success false and
  the message \<^verbatim>\<open>No available slots for the selected date. Maximum <limit> bookings
  allowed per day for this test.\<close>, where the limit is the capacity for the center and the
  test; the store is unchanged. The answer depends on the limit only.
\<close>

theorem capacity_rejection_response:
  "(cr_test body = Some T \<and> cr_hcs body = Some C \<and> cr_scheduledAt body = Some (Date d)
      \<and> findById t_id (tests s) (castObjectId T) = Some t
      \<and> findById c_id (centers s) (castObjectId C) = Some c
      \<and> find (\<lambda>p. p_hcs p = C \<and> p_status p = ''approved'') (t_hcsPricing t) = Some e
      \<and> now < d
      \<and> getSlotsForTest c T \<le> of_nat (countBookingsForDate tz (bookings s) (castObjectId C) d)
    \<longrightarrow> createBooking tz now newId s usr body
          = (s, Failure 400 (noSlotsMessage (getSlotsForTest c T))))
   \<and> (findById b_id (bookings s0) (castObjectId i) = Some b \<and> b_status b \<noteq> ''confirmed''
      \<and> \<not> hcsAdminDenied s0 adm b \<and> findById c_id (centers s0) (b_hcs b) = Some c0
      \<and> ub_status ubody = Some ''confirmed''
      \<and> getSlotsForTest c0 (b_test b)
           \<le> of_nat (countBookingsForDate tz (bookings s0) (b_hcs b) (b_scheduledAt b))
    \<longrightarrow> updateBooking tz s0 adm i ubody
          = (s0, Failure 400 (noSlotsMessage (getSlotsForTest c0 (b_test b)))))
   \<and> noSlotsMessage limit
       = ''No available slots for the selected date. Maximum '' @ showNumber limit
           @ '' bookings allowed per day for this test.''"
proof (intro conjI impI)
  assume "cr_test body = Some T \<and> cr_hcs body = Some C \<and> cr_scheduledAt body = Some (Date d)
      \<and> findById t_id (tests s) (castObjectId T) = Some t
      \<and> findById c_id (centers s) (castObjectId C) = Some c
      \<and> find (\<lambda>p. p_hcs p = C \<and> p_status p = ''approved'') (t_hcsPricing t) = Some e
      \<and> now < d
      \<and> getSlotsForTest c T \<le> of_nat (countBookingsForDate tz (bookings s) (castObjectId C) d)"
  then show "createBooking tz now newId s usr body
          = (s, Failure 400 (noSlotsMessage (getSlotsForTest c T)))"
    by (simp add: createBooking_full)
next
  assume "findById b_id (bookings s0) (castObjectId i) = Some b \<and> b_status b \<noteq> ''confirmed''
      \<and> \<not> hcsAdminDenied s0 adm b \<and> findById c_id (centers s0) (b_hcs b) = Some c0
      \<and> ub_status ubody = Some ''confirmed''
      \<and> getSlotsForTest c0 (b_test b)
           \<le> of_nat (countBookingsForDate tz (bookings s0) (b_hcs b) (b_scheduledAt b))"
  then show "updateBooking tz s0 adm i ubody
          = (s0, Failure 400 (noSlotsMessage (getSlotsForTest c0 (b_test b))))"
    by (simp add: updateBooking_def Let_def)
next
  show "noSlotsMessage limit
       = ''No available slots for the selected date. Maximum '' @ showNumber limit
           @ '' bookings allowed per day for this test.''"
    by (simp add: noSlotsMessage_def)
qed

theorem capacity_rejection_response_witness:
  "createBooking 0 may31_12h ''b9''
       (dbA [bookingOf ''b1'' ''a1'' ''c1'' ''pending'' june1_10h,
             bookingOf ''b2'' ''a1'' ''c1'' ''pending'' june1_15h30])
       customer (createBodyOf ''a1'' ''c1'' june1_10h)
     = (dbA [bookingOf ''b1'' ''a1'' ''c1'' ''pending'' june1_10h,
             bookingOf ''b2'' ''a1'' ''c1'' ''pending'' june1_15h30],
        Failure 400 (noSlotsMessage 2))
   \<and> updateBooking 0
       (dbA [bookingOf ''b1'' ''a1'' ''c1'' ''pending'' june1_10h,
             bookingOf ''b2'' ''a1'' ''c1'' ''pending'' june1_15h30])
       superadmin ''b2'' confirmBody
     = (dbA [bookingOf ''b1'' ''a1'' ''c1'' ''pending'' june1_10h,
             bookingOf ''b2'' ''a1'' ''c1'' ''pending'' june1_15h30],
        Failure 400 (noSlotsMessage 2))"
proof -
  let ?b1 = "bookingOf ''b1'' ''a1'' ''c1'' ''pending'' june1_10h"
  let ?b2 = "bookingOf ''b2'' ''a1'' ''c1'' ''pending'' june1_15h30"
  let ?s = "dbA [?b1, ?b2]"
  let ?body = "createBodyOf ''a1'' ''c1'' june1_10h"
  let ?e = "\<lparr>p_hcs = ''c1'', p_price = 300, p_status = ''approved''\<rparr>"
  have g: "getSlotsForTest centerX ''a1'' = 2"
    by (simp add: getSlotsForTest_def centerX_def)
  have h1: "cr_test ?body = Some ''a1'' \<and> cr_hcs ?body = Some ''c1''
      \<and> cr_scheduledAt ?body = Some (Date june1_10h)
      \<and> findById t_id (tests ?s) (castObjectId ''a1'') = Some testT
      \<and> findById c_id (centers ?s) (castObjectId ''c1'') = Some centerX
      \<and> find (\<lambda>p. p_hcs p = ''c1'' \<and> p_status p = ''approved'') (t_hcsPricing testT) = Some ?e
      \<and> may31_12h < june1_10h
      \<and> getSlotsForTest centerX ''a1''
           \<le> of_nat (countBookingsForDate 0 (bookings ?s) (castObjectId ''c1'') june1_10h)"
    by (simp add: createBodyOf_def findById_def countBookingsForDate_def setHours_def msPerDay_def
        getSlotsForTest_def ex_defs)
  have h2: "findById b_id (bookings ?s) (castObjectId ''b2'') = Some ?b2 \<and> b_status ?b2 \<noteq> ''confirmed''
      \<and> \<not> hcsAdminDenied ?s superadmin ?b2 \<and> findById c_id (centers ?s) (b_hcs ?b2) = Some centerX
      \<and> ub_status confirmBody = Some ''confirmed''
      \<and> getSlotsForTest centerX (b_test ?b2)
           \<le> of_nat (countBookingsForDate 0 (bookings ?s) (b_hcs ?b2) (b_scheduledAt ?b2))"
    by (simp add: confirmBody_def hcsAdminDenied_def findById_def countBookingsForDate_def
        setHours_def msPerDay_def getSlotsForTest_def ex_defs)
  note r = capacity_rejection_response [where tz = 0 and now = may31_12h and newId = "''b9''"
      and s = ?s and usr = customer and body = ?body and T = "''a1''" and C = "''c1''"
      and d = june1_10h and t = testT and c = centerX and e = ?e
      and ?s0.0 = ?s and i = "''b2''" and b = ?b2 and adm = superadmin and ?c0.0 = centerX
      and ubody = confirmBody]
  from r h1 have "createBooking 0 may31_12h ''b9'' ?s customer ?body
                    = (?s, Failure 400 (noSlotsMessage (getSlotsForTest centerX ''a1'')))"
    by blast
  moreover from r h2 have "updateBooking 0 ?s superadmin ''b2'' confirmBody
                    = (?s, Failure 400 (noSlotsMessage (getSlotsForTest centerX (b_test ?b2))))"
    by blast
  ultimately show ?thesis using g by (simp add: bookingOf_def)
qed

section \<open>The price snapshot\<close>

lemma find_filter: "find P xs = (case filter P xs of [] \<Rightarrow> None | x # _ \<Rightarrow> Some x)"
  by (induction xs) auto

lemma bookingPreSave_new:
  assumes "findById t_id ts (b_test b) = Some t"
  shows "b_priceAtBooking (bookingPreSave True ts b) = Some (snapshotPrice_spec t (b_hcs b))"
  using assms
  by (simp add: bookingPreSave_def snapshotPrice_spec_def approvedEntries_def find_filter
           split: list.splits)

lemma createBooking_Success_price:
  assumes "createBooking tz now newId s usr body = (s', Success code b)"
  shows "\<exists>t. findById t_id (tests s) (b_test b) = Some t
             \<and> b_priceAtBooking b = Some (snapshotPrice_spec t (b_hcs b))
             \<and> findById b_id (bookings s) (b_id b) = None"
proof -
  from assms obtain testId hcsId sd where body:
    "cr_test body = Some testId" "cr_hcs body = Some hcsId" "cr_scheduledAt body = Some sd"
    by (auto simp: createBooking_def split: option.splits)
  from assms body obtain testDoc where
    t: "findById t_id (tests s) (castObjectId testId) = Some testDoc"
    by (auto simp: createBooking_def split: option.splits)
  from assms body t obtain hcsDoc where
    c: "findById c_id (centers s) (castObjectId hcsId) = Some hcsDoc"
    by (auto simp: createBooking_def split: option.splits)
  from assms body t c obtain d where d: "sd = Date d"
    by (cases sd) (auto simp: createBooking_def split: option.splits)
  let ?doc = "\<lparr>b_id = newId, b_user = castObjectId (ru_id usr), b_test = castObjectId testId,
               b_hcs = castObjectId hcsId,
               b_status = ''pending'', b_scheduledAt = d, b_priceAtBooking = None\<rparr>"
  from assms body t c d have b: "b = bookingPreSave True (tests s) ?doc"
    and fresh: "findById b_id (bookings s) newId = None"
    by (auto simp: createBooking_def Let_def split: option.splits if_splits)
  have "b_test ?doc = castObjectId testId" by simp
  with t have "findById t_id (tests s) (b_test ?doc) = Some testDoc" by simp
  from bookingPreSave_new [OF this]
  have "b_priceAtBooking b = Some (snapshotPrice_spec testDoc (b_hcs b))"
    by (simp add: b bookingPreSave_fields)
  with t fresh show ?thesis
    by (auto simp: b bookingPreSave_fields)
qed

lemma cancelBooking_Success:
  assumes f: "findById b_id (bookings s) (castObjectId i) = Some b"
      and c: "cancelBooking s usr i = (s', Success code b')"
  shows "b' = b\<lparr>b_status := ''canceled''\<rparr>
         \<and> bookings s' = updateFirst b_id (castObjectId i) (\<lambda>_. b') (bookings s)
         \<and> tests s' = tests s"
  using assms findById_Some_key [OF f]
  by (auto simp: cancelBooking_def bookingPreSave_def Let_def split: if_splits)

lemma reviewAssignmentRequest_bookings:
  "bookings (fst (reviewAssignmentRequest s usr rid body)) = bookings s"
  by (simp add: reviewAssignmentRequest_def Let_def split: option.splits)

text \<open>
  C2. The price at booking is set when the booking is created and not afterwards. A booking
  stored by a successful createBooking carries the specified price of its test and center
  (the hook computes the approved entry's price, or the base price when there is no approved
  entry); the hook leaves a document that is not new as it is, whatever the tests are by
  then; a review of an assignment request, which rewrites pricing entries, does not touch
  the bookings; and after the tests collection has been replaced by any other, a successful
  cancelBooking stores the booking with the price it had.
\<close>

theorem price_snapshot:
  "(createBooking tz now newId s usr body = (s', Success code b)
      \<longrightarrow> (\<exists>t. findById t_id (tests s) (b_test b) = Some t
                \<and> b_priceAtBooking b = Some (snapshotPrice_spec t (b_hcs b)))
          \<and> findById b_id (bookings s') (b_id b) = Some b)
   \<and> (findById t_id ts (b_test b0) = Some t0
      \<longrightarrow> b_priceAtBooking (bookingPreSave True ts b0) = Some (snapshotPrice_spec t0 (b_hcs b0)))
   \<and> bookingPreSave False ts' b0 = b0
   \<and> bookings (fst (reviewAssignmentRequest s1 adm rid rbody)) = bookings s1
   \<and> (findById b_id (bookings s1) (castObjectId i) = Some b1
        \<and> cancelBooking (s1\<lparr>tests := ts'\<rparr>) usr' i = (s1', Success code' b1')
      \<longrightarrow> b_priceAtBooking b1' = b_priceAtBooking b1
          \<and> findById b_id (bookings s1') (castObjectId i) = Some b1')"
proof (intro conjI impI)
  assume a: "createBooking tz now newId s usr body = (s', Success code b)"
  from createBooking_Success_price [OF a]
  show "\<exists>t. findById t_id (tests s) (b_test b) = Some t
                \<and> b_priceAtBooking b = Some (snapshotPrice_spec t (b_hcs b))"
    by blast
  from createBooking_Success_price [OF a] have "findById b_id (bookings s) (b_id b) = None"
    by blast
  moreover from createBooking_Success [OF a] have "bookings s' = bookings s @ [b]"
    by blast
  ultimately show "findById b_id (bookings s') (b_id b) = Some b"
    by (simp add: findById_append) (simp add: findById_def)
next
  assume "findById t_id ts (b_test b0) = Some t0"
  then show "b_priceAtBooking (bookingPreSave True ts b0) = Some (snapshotPrice_spec t0 (b_hcs b0))"
    by (rule bookingPreSave_new)
next
  show "bookingPreSave False ts' b0 = b0"
    by (simp add: bookingPreSave_def)
  show "bookings (fst (reviewAssignmentRequest s1 adm rid rbody)) = bookings s1"
    by (rule reviewAssignmentRequest_bookings)
next
  assume a: "findById b_id (bookings s1) (castObjectId i) = Some b1
        \<and> cancelBooking (s1\<lparr>tests := ts'\<rparr>) usr' i = (s1', Success code' b1')"
  then have f: "findById b_id (bookings (s1\<lparr>tests := ts'\<rparr>)) (castObjectId i) = Some b1"
    by simp
  from a have k: "cancelBooking (s1\<lparr>tests := ts'\<rparr>) usr' i = (s1', Success code' b1')"
    by simp
  from cancelBooking_Success [OF f k]
  have c: "b1' = b1\<lparr>b_status := ''canceled''\<rparr>"
          "bookings s1' = updateFirst b_id (castObjectId i) (\<lambda>_. b1') (bookings s1)"
    by simp_all
  show "b_priceAtBooking b1' = b_priceAtBooking b1" by (simp add: c(1))
  have "b_id b1' = castObjectId i" using findById_Some_key [OF f] by (simp add: c(1))
  with findById_updateFirst_same [of b_id "bookings s1" "castObjectId i" b1 "\<lambda>_. b1'"] a
  show "findById b_id (bookings s1') (castObjectId i) = Some b1'"
    by (simp add: c(2))
qed

theorem price_snapshot_witness:
  "createBooking 0 may31_12h ''b1'' (dbA []) customer (createBodyOf ''a1'' ''c1'' june1_10h)
     = (dbA [bookingOf ''b1'' ''a1'' ''c1'' ''pending'' june1_10h],
        Success 201 (bookingOf ''b1'' ''a1'' ''c1'' ''pending'' june1_10h))
   \<and> findById t_id (tests (dbA [])) ''a1'' = Some testT
   \<and> snapshotPrice_spec testT ''c1'' = 300
   \<and> snapshotPrice_spec testT ''c3'' = 250
   \<and> b_priceAtBooking (bookingPreSave True [testT]
         ((bookingOf ''b5'' ''a1'' ''c3'' ''pending'' june1_10h)\<lparr>b_priceAtBooking := None\<rparr>)) = Some 250
   \<and> cancelBooking ((dbA [bookingOf ''b1'' ''a1'' ''c1'' ''pending'' june1_10h])
                       \<lparr>tests := [testT\<lparr>t_price := 999, t_hcsPricing := []\<rparr>]\<rparr>) customer ''b1''
       = ((dbA [bookingOf ''b1'' ''a1'' ''c1'' ''canceled'' june1_10h])
             \<lparr>tests := [testT\<lparr>t_price := 999, t_hcsPricing := []\<rparr>]\<rparr>,
          Success 200 (bookingOf ''b1'' ''a1'' ''c1'' ''canceled'' june1_10h))
   \<and> b_priceAtBooking (bookingOf ''b1'' ''a1'' ''c1'' ''canceled'' june1_10h) = Some 300"
proof -
  let ?b = "bookingOf ''b1'' ''a1'' ''c1'' ''pending'' june1_10h"
  let ?b' = "bookingOf ''b1'' ''a1'' ''c1'' ''canceled'' june1_10h"
  let ?b5 = "(bookingOf ''b5'' ''a1'' ''c3'' ''pending'' june1_10h)\<lparr>b_priceAtBooking := None\<rparr>"
  let ?ts' = "[testT\<lparr>t_price := 999, t_hcsPricing := []\<rparr>]"
  have c: "createBooking 0 may31_12h ''b1'' (dbA []) customer (createBodyOf ''a1'' ''c1'' june1_10h)
             = (dbA [?b], Success 201 ?b)"
    by (simp add: createBooking_def createBodyOf_def findById_def countBookingsForDate_def
        getSlotsForTest_def truthy_def bookingPreSave_def Let_def ex_defs)
  have t: "findById t_id (tests (dbA [])) ''a1'' = Some testT"
    by (simp add: findById_def dbA_def testT_def)
  have t5: "findById t_id [testT] (b_test ?b5) = Some testT"
    by (simp add: findById_def bookingOf_def testT_def)
  have p: "snapshotPrice_spec testT ''c1'' = 300" "snapshotPrice_spec testT ''c3'' = 250"
    by (simp_all add: snapshotPrice_spec_def approvedEntries_def testT_def)
  have f: "findById b_id (bookings (dbA [?b])) (castObjectId ''b1'') = Some ?b"
    by (simp add: findById_def dbA_def bookingOf_def castObjectId_def lowerHex_def)
  have k: "cancelBooking ((dbA [?b])\<lparr>tests := ?ts'\<rparr>) customer ''b1''
             = ((dbA [?b'])\<lparr>tests := ?ts'\<rparr>, Success 200 ?b')"
    by (simp add: cancelBooking_def findById_def hcsAdminDenied_def bookingPreSave_def Let_def ex_defs)
  note ps = price_snapshot [where tz = 0 and now = may31_12h and newId = "''b1''" and s = "dbA []"
      and usr = customer and body = "createBodyOf ''a1'' ''c1'' june1_10h" and s' = "dbA [?b]"
      and code = 201 and b = ?b and ts = "[testT]" and ?b0.0 = ?b5 and ?t0.0 = testT
      and ts' = ?ts' and ?s1.0 = "dbA [?b]" and i = "''b1''" and ?b1.0 = ?b and usr' = customer
      and s1' = "(dbA [?b'])\<lparr>tests := ?ts'\<rparr>" and code' = 200 and b1' = ?b']
  from ps c have A: "\<exists>t. findById t_id (tests (dbA [])) (b_test ?b) = Some t
                \<and> b_priceAtBooking ?b = Some (snapshotPrice_spec t (b_hcs ?b))"
    by blast
  from ps t5 have B: "b_priceAtBooking (bookingPreSave True [testT] ?b5)
                        = Some (snapshotPrice_spec testT (b_hcs ?b5))"
    by blast
  from ps f k have C: "b_priceAtBooking ?b' = b_priceAtBooking ?b"
    by blast
  from A t have "b_priceAtBooking ?b = Some 300"
    using p by (simp add: bookingOf_def)
  with C have C': "b_priceAtBooking ?b' = Some 300" by simp
  from B p have B': "b_priceAtBooking (bookingPreSave True [testT] ?b5) = Some 250"
    by (simp add: bookingOf_def)
  show ?thesis using c t p B' k C' by simp
qed

section \<open>Review of assignment requests\<close>










text \<open>The answer of reviewAssignmentRequest to a well-formed review of a request that exists.\<close>

lemma reviewAssignmentRequest_result:
  assumes f: "findById r_id (requests s) (castObjectId rid) = Some req"
      and st: "rv_status body \<in> set requestStatusEnum"
      and nt: "\<not> (case rv_notes body of None \<Rightarrow> False | Some v \<Rightarrow> length v > 500)"
      and price: "0 \<le> r_requestedPrice req"
  shows "\<exists>s' req'.
           reviewAssignmentRequest s usr rid body
             = (s', Success 200 (reviewMessage (rv_status body), req'))
         \<and> req' = req\<lparr>r_status := rv_status body, r_reviewedBy := Some (castObjectId (ru_id usr)),
                       r_notes := (if truthy (rv_notes body) then rv_notes body else r_notes req)\<rparr>
         \<and> requests s' = updateFirst r_id (castObjectId rid) (\<lambda>_. req') (requests s)
         \<and> tests s' = (if rv_status body = ''approved''
                        then updateFirst t_id (r_test req)
                               (\<lambda>t. t\<lparr>t_hcsPricing := upsertPricing (r_hcs req) (r_requestedPrice req)
                                                         (t_hcsPricing t)\<rparr>) (tests s)
                        else tests s)"
proof -
  have noop: "updateFirst t_id i g ts = ts" if "findById t_id ts i = None" for i g and ts :: "test list"
    using that unfolding findById_def by (induction ts) (auto split: if_splits)
  show ?thesis
    using f st nt price findById_Some_key [OF f]
    by (auto simp: reviewAssignmentRequest_def Let_def noop split: option.splits)
qed




text \<open>
  C9, as stated, fails: a request that is already approved can be reviewed again. A review
  with the decision rejected turns its status from approved to rejected, and a review that
  approves it again overwrites the pricing entry, which had been set to 300 in the
  meantime, with the requested price 500.
\<close>

theorem review_once_counterexample:
  "r_status requestR = ''approved''
   \<and> reviewAssignmentRequest (dbR requestR testT) superadmin ''f1'' (reviewOf ''rejected'')
       = (dbR (requestR\<lparr>r_status := ''rejected''\<rparr>) testT,
          Success 200 (''Test assignment request rejected successfully'',
                       requestR\<lparr>r_status := ''rejected''\<rparr>))
   \<and> t_hcsPricing testT = [\<lparr>p_hcs = ''c1'', p_price = 300, p_status = ''approved''\<rparr>]
   \<and> reviewAssignmentRequest (dbR requestR testT) superadmin ''f1'' (reviewOf ''approved'')
       = (dbR requestR (testT\<lparr>t_hcsPricing :=
                                 [\<lparr>p_hcs = ''c1'', p_price = 500, p_status = ''approved''\<rparr>]\<rparr>),
          Success 200 (''Test assignment request approved successfully'', requestR))"
  by (simp add: reviewAssignmentRequest_def reviewOf_def reviewMessage_def requestStatusEnum_def
      truthy_def findById_def upsertPricing_def Let_def dbR_def requestR_def testT_def
      superadmin_def castObjectId_def lowerHex_def)

text \<open>
  C9, amended. A review of a request that exists, with a decision of the status enum (and
  notes of at most 500 characters, and a requested price that is not negative), succeeds
  whatever the current status of the request is: the stored request gets the decision as
  its status and the reviewer as \<open>reviewedBy\<close>. When the decision is approved the pricing
  list of the request's test is upserted with the requested price, each time; otherwise the
  tests are left as they are.
\<close>

theorem review_overwrites_status:
  assumes f: "findById r_id (requests s) (castObjectId rid) = Some req"
      and st: "rv_status body \<in> set requestStatusEnum"
      and nt: "\<not> (case rv_notes body of None \<Rightarrow> False | Some v \<Rightarrow> length v > 500)"
      and price: "0 \<le> r_requestedPrice req"
  shows "\<exists>s' req'.
           reviewAssignmentRequest s usr rid body
             = (s', Success 200 (reviewMessage (rv_status body), req'))
         \<and> r_status req' = rv_status body \<and> r_reviewedBy req' = Some (castObjectId (ru_id usr))
         \<and> findById r_id (requests s') (castObjectId rid) = Some req'
         \<and> (rv_status body = ''approved''
              \<longrightarrow> tests s' = updateFirst t_id (r_test req)
                     (\<lambda>t. t\<lparr>t_hcsPricing := upsertPricing (r_hcs req) (r_requestedPrice req)
                                               (t_hcsPricing t)\<rparr>) (tests s))
         \<and> (rv_status body \<noteq> ''approved'' \<longrightarrow> tests s' = tests s)"
proof -
  from reviewAssignmentRequest_result [OF f st nt price, of usr]
  obtain s' req' where r:
    "reviewAssignmentRequest s usr rid body = (s', Success 200 (reviewMessage (rv_status body), req'))"
    "req' = req\<lparr>r_status := rv_status body, r_reviewedBy := Some (castObjectId (ru_id usr)),
                 r_notes := (if truthy (rv_notes body) then rv_notes body else r_notes req)\<rparr>"
    "requests s' = updateFirst r_id (castObjectId rid) (\<lambda>_. req') (requests s)"
    "tests s' = (if rv_status body = ''approved''
                 then updateFirst t_id (r_test req)
                        (\<lambda>t. t\<lparr>t_hcsPricing := upsertPricing (r_hcs req) (r_requestedPrice req)
                                                  (t_hcsPricing t)\<rparr>) (tests s)
                 else tests s)"
    by blast
  have "r_id req' = castObjectId rid" using findById_Some_key [OF f] by (simp add: r(2))
  from findById_updateFirst_same [of r_id "requests s" "castObjectId rid" req "\<lambda>_. req'", OF f this]
  have "findById r_id (requests s') (castObjectId rid) = Some req'" by (simp add: r(3))
  moreover have "r_status req' = rv_status body" "r_reviewedBy req' = Some (castObjectId (ru_id usr))"
    by (simp_all add: r(2))
  ultimately show ?thesis using r(1,4) by auto
qed

theorem review_overwrites_status_witness:
  "findById r_id (requests (dbR requestR testT)) (castObjectId ''f1'') = Some requestR
   \<and> r_status requestR = ''approved''
   \<and> rv_status (reviewOf ''rejected'') \<in> set requestStatusEnum
   \<and> rv_status (reviewOf ''approved'') \<in> set requestStatusEnum
   \<and> 0 \<le> r_requestedPrice requestR
   \<and> (\<exists>s' req'. reviewAssignmentRequest (dbR requestR testT) superadmin ''f1'' (reviewOf ''rejected'')
                    = (s', Success 200 (''Test assignment request rejected successfully'', req'))
                \<and> r_status req' = ''rejected''
                \<and> findById r_id (requests s') (castObjectId ''f1'') = Some req'
                \<and> tests s' = [testT])
   \<and> (\<exists>s' req'. reviewAssignmentRequest (dbR requestR testT) superadmin ''f1'' (reviewOf ''approved'')
                    = (s', Success 200 (''Test assignment request approved successfully'', req'))
                \<and> r_status req' = ''approved''
                \<and> findById r_id (requests s') (castObjectId ''f1'') = Some req'
                \<and> tests s' = [testT\<lparr>t_hcsPricing := [entryOf ''c1'' 500]\<rparr>])"
proof -
  let ?s = "dbR requestR testT"
  let ?body = "reviewOf ''rejected''"
  let ?appr = "reviewOf ''approved''"
  have f: "findById r_id (requests ?s) (castObjectId ''f1'') = Some requestR"
    by (simp add: findById_def dbR_def requestR_def castObjectId_def lowerHex_def)
  have st: "rv_status ?body \<in> set requestStatusEnum" "rv_status ?appr \<in> set requestStatusEnum"
    by (simp_all add: reviewOf_def requestStatusEnum_def)
  have nt: "\<not> (case rv_notes ?body of None \<Rightarrow> False | Some v \<Rightarrow> length v > 500)"
           "\<not> (case rv_notes ?appr of None \<Rightarrow> False | Some v \<Rightarrow> length v > 500)"
    by (simp_all add: reviewOf_def)
  have price: "0 \<le> r_requestedPrice requestR"
    by (simp add: requestR_def)
  have a: "r_status requestR = ''approved''"
    by (simp add: requestR_def)
  have m: "reviewMessage (rv_status ?body) = ''Test assignment request rejected successfully''"
          "reviewMessage (rv_status ?appr) = ''Test assignment request approved successfully''"
    by (simp_all add: reviewMessage_def reviewOf_def)
  have n: "rv_status ?body \<noteq> ''approved''" "rv_status ?body = ''rejected''"
          "rv_status ?appr = ''approved''"
    by (simp_all add: reviewOf_def)
  have up: "updateFirst t_id (r_test requestR)
              (\<lambda>t. t\<lparr>t_hcsPricing := upsertPricing (r_hcs requestR) (r_requestedPrice requestR)
                                        (t_hcsPricing t)\<rparr>) (tests ?s)
            = [testT\<lparr>t_hcsPricing := [entryOf ''c1'' 500]\<rparr>]"
    by (simp add: dbR_def requestR_def testT_def upsertPricing_def entryOf_def)
  from review_overwrites_status [OF f st(1) nt(1) price, of superadmin] n
  have "\<exists>s' req'. reviewAssignmentRequest ?s superadmin ''f1'' ?body
                    = (s', Success 200 (reviewMessage (rv_status ?body), req'))
                \<and> r_status req' = ''rejected''
                \<and> findById r_id (requests s') (castObjectId ''f1'') = Some req'
                \<and> tests s' = tests ?s"
    by auto
  then have R: "\<exists>s' req'. reviewAssignmentRequest ?s superadmin ''f1'' ?body
                    = (s', Success 200 (''Test assignment request rejected successfully'', req'))
                \<and> r_status req' = ''rejected''
                \<and> findById r_id (requests s') (castObjectId ''f1'') = Some req'
                \<and> tests s' = [testT]"
    by (simp add: m dbR_def)
  from review_overwrites_status [OF f st(2) nt(2) price, of superadmin] n
  have "\<exists>s' req'. reviewAssignmentRequest ?s superadmin ''f1'' ?appr
                    = (s', Success 200 (reviewMessage (rv_status ?appr), req'))
                \<and> r_status req' = ''approved''
                \<and> findById r_id (requests s') (castObjectId ''f1'') = Some req'
                \<and> tests s' = updateFirst t_id (r_test requestR)
                     (\<lambda>t. t\<lparr>t_hcsPricing := upsertPricing (r_hcs requestR) (r_requestedPrice requestR)
                                               (t_hcsPricing t)\<rparr>) (tests ?s)"
    by auto
  then have A: "\<exists>s' req'. reviewAssignmentRequest ?s superadmin ''f1'' ?appr
                    = (s', Success 200 (''Test assignment request approved successfully'', req'))
                \<and> r_status req' = ''approved''
                \<and> findById r_id (requests s') (castObjectId ''f1'') = Some req'
                \<and> tests s' = [testT\<lparr>t_hcsPricing := [entryOf ''c1'' 500]\<rparr>]"
    by (simp add: m up)
  from f a st price R A show ?thesis by blast
qed

section \<open>Scenario B\<close>

lemma countBookingsForDate_day:
  "localDay tz d' = localDay tz d
     \<Longrightarrow> countBookingsForDate tz bs C d' = countBookingsForDate tz bs C d"
proof -
  assume "localDay tz d' = localDay tz d"
  then have "occupies tz C d' = occupies tz C d"
    by (simp add: occupies_def fun_eq_iff)
  then show ?thesis by (simp add: countBookingsForDate_occupies)
qed

lemma approvedEntries_find:
  "approvedEntries t C \<noteq> []
     \<Longrightarrow> \<exists>p. find (\<lambda>p. p_hcs p = C \<and> p_status p = ''approved'') (t_hcsPricing t) = Some p"
  by (cases "approvedEntries t C") (simp_all add: approvedEntries_def find_filter)

text \<open>A request that passes every check is admitted, and the day then holds one booking more.\<close>

lemma createBooking_admit:
  assumes c: "findById c_id (centers s) (castObjectId C) = Some c"
      and t: "findById t_id (tests s) (castObjectId T) = Some t"
      and e: "approvedEntries t C \<noteq> []"
      and fut: "now < d'"
      and day: "localDay tz d' = localDay tz d"
      and room: "of_nat (countBookingsForDate tz (bookings s) (castObjectId C) d)
                   < getSlotsForTest c T"
      and fresh: "newId \<notin> b_id ` set (bookings s)"
  shows "\<exists>s' b. createBooking tz now newId s usr (createBodyOf T C d') = (s', Success 201 b)
           \<and> b_test b = castObjectId T \<and> b_hcs b = castObjectId C
           \<and> b_status b = ''pending''
           \<and> centers s' = centers s \<and> tests s' = tests s
           \<and> b_id ` set (bookings s') = insert newId (b_id ` set (bookings s))
           \<and> countBookingsForDate tz (bookings s') (castObjectId C) d
               = Suc (countBookingsForDate tz (bookings s) (castObjectId C) d)"
proof -
  let ?doc = "bookingPreSave True (tests s)
                \<lparr>b_id = newId, b_user = castObjectId (ru_id usr), b_test = castObjectId T,
                 b_hcs = castObjectId C,
                 b_status = ''pending'', b_scheduledAt = d', b_priceAtBooking = None\<rparr>"
  let ?s' = "s\<lparr>bookings := bookings s @ [?doc]\<rparr>"
  from e obtain p where p: "find (\<lambda>p. p_hcs p = C \<and> p_status p = ''approved'') (t_hcsPricing t) = Some p"
    using approvedEntries_find by blast
  have room': "of_nat (countBookingsForDate tz (bookings s) (castObjectId C) d')
                 < getSlotsForTest c T"
    using room by (simp add: countBookingsForDate_day [OF day])
  have nf: "findById b_id (bookings s) newId = None"
    using fresh by (simp add: findById_None_iff)
  have r: "createBooking tz now newId s usr (createBodyOf T C d') = (?s', Success 201 ?doc)"
    using c t p fut room' nf
    by (simp add: createBooking_def createBodyOf_def truthy_def Let_def)
  have "occupies tz (castObjectId C) d ?doc"
    by (simp add: occupies_def bookingPreSave_fields day)
  then have "countBookingsForDate tz (bookings ?s') (castObjectId C) d
               = Suc (countBookingsForDate tz (bookings s) (castObjectId C) d)"
    by (simp add: countBookingsForDate_occupies)
  moreover have "b_id ` set (bookings ?s') = insert newId (b_id ` set (bookings s))"
    by (simp add: bookingPreSave_fields)
  ultimately show ?thesis using r by (simp add: bookingPreSave_fields)
qed

lemma createBooking_refuse:
  assumes c: "findById c_id (centers s) (castObjectId C) = Some c"
      and t: "findById t_id (tests s) (castObjectId T) = Some t"
      and e: "approvedEntries t C \<noteq> []"
      and fut: "now < d'"
      and day: "localDay tz d' = localDay tz d"
      and full: "getSlotsForTest c T
                   \<le> of_nat (countBookingsForDate tz (bookings s) (castObjectId C) d)"
  shows "createBooking tz now newId s usr (createBodyOf T C d')
           = (s, Failure 400 (noSlotsMessage (getSlotsForTest c T)))"
proof -
  from e obtain p where p: "find (\<lambda>p. p_hcs p = C \<and> p_status p = ''approved'') (t_hcsPricing t) = Some p"
    using approvedEntries_find by blast
  have "getSlotsForTest c T \<le> of_nat (countBookingsForDate tz (bookings s) (castObjectId C) d')"
    using full by (simp add: countBookingsForDate_day [OF day])
  with c t p fut show ?thesis
    by (simp add: createBooking_full createBodyOf_def)
qed
text \<open>
  C5. Let center X have a default capacity of 5 and an override of one slot for test T, let
  U be a test without an override, both tests being offered at X, and let no booking occupy
  X on the day. Then a booking for T on that day is admitted, and after it bookings for U
  on the same day are admitted against the default capacity of 5: the next four succeed,
  which brings the day to five bookings, and the one after is refused with the limit 5.
\<close>

theorem scenario_B:
  assumes X: "findById c_id (centers s) (castObjectId X) = Some c"
      and dflt: "c_availableSlotsPerDay c = 5"
      and ovT: "overrides c T = Some 1"
      and ovU: "overrides c U = None"
      and tT: "findById t_id (tests s) (castObjectId T) = Some t"
      and eT: "approvedEntries t X \<noteq> []"
      and tU: "findById t_id (tests s) (castObjectId U) = Some u"
      and eU: "approvedEntries u X \<noteq> []"
      and times: "\<forall>k \<in> set [d1, d2, d3, d4, d5, d6]. now < k \<and> localDay tz k = localDay tz d"
      and empty: "countBookingsForDate tz (bookings s) (castObjectId X) d = 0"
      and ids: "distinct [n1, n2, n3, n4, n5, n6]"
               "set [n1, n2, n3, n4, n5, n6] \<inter> b_id ` set (bookings s) = {}"
  shows "\<exists>b1 b2 b3 b4 b5.
           snd (createAll tz now s
                  [(n1, usr, createBodyOf T X d1), (n2, usr, createBodyOf U X d2),
                   (n3, usr, createBodyOf U X d3), (n4, usr, createBodyOf U X d4),
                   (n5, usr, createBodyOf U X d5), (n6, usr, createBodyOf U X d6)])
             = [Success 201 b1, Success 201 b2, Success 201 b3, Success 201 b4, Success 201 b5,
                Failure 400 (noSlotsMessage 5)]
         \<and> map b_test [b1, b2, b3, b4, b5]
             = [castObjectId T, castObjectId U, castObjectId U, castObjectId U, castObjectId U]"
proof -
  have limT: "getSlotsForTest c T = 1"
    using ovT by (simp add: getSlotsForTest_spec capacityFor_spec_def)
  have limU: "getSlotsForTest c U = 5"
    using ovU dflt by (simp add: getSlotsForTest_spec capacityFor_spec_def)
  let ?n = "\<lambda>s. countBookingsForDate tz (bookings s) (castObjectId X) d"
  let ?ids = "\<lambda>s. b_id ` set (bookings s)"
  from times have fut: "now < d1" "now < d2" "now < d3" "now < d4" "now < d5" "now < d6"
    and day: "localDay tz d1 = localDay tz d" "localDay tz d2 = localDay tz d"
             "localDay tz d3 = localDay tz d" "localDay tz d4 = localDay tz d"
             "localDay tz d5 = localDay tz d" "localDay tz d6 = localDay tz d"
    by simp_all
  have "n1 \<notin> ?ids s" using ids by auto
  from createBooking_admit [OF X tT eT fut(1) day(1) _ this, of usr] limT empty
  obtain s1 b1 where 1:
    "createBooking tz now n1 s usr (createBodyOf T X d1) = (s1, Success 201 b1)" "b_test b1 = castObjectId T"
    "centers s1 = centers s" "tests s1 = tests s" "?ids s1 = insert n1 (?ids s)" "?n s1 = 1"
    by auto
  have "n2 \<notin> ?ids s1" using ids 1(5) by auto
  moreover have "findById c_id (centers s1) (castObjectId X) = Some c"
    "findById t_id (tests s1) (castObjectId U) = Some u"
    using X tU 1(3,4) by simp_all
  ultimately obtain s2 b2 where 2:
    "createBooking tz now n2 s1 usr (createBodyOf U X d2) = (s2, Success 201 b2)" "b_test b2 = castObjectId U"
    "centers s2 = centers s" "tests s2 = tests s" "?ids s2 = insert n2 (?ids s1)" "?n s2 = 2"
    using createBooking_admit [of s1 X c U u now d2 tz d n2 usr] eU fut(2) day(2) limU 1
    by auto
  have "n3 \<notin> ?ids s2" using ids 1(5) 2(5) by auto
  moreover have "findById c_id (centers s2) (castObjectId X) = Some c"
    "findById t_id (tests s2) (castObjectId U) = Some u"
    using X tU 2(3,4) by simp_all
  ultimately obtain s3 b3 where 3:
    "createBooking tz now n3 s2 usr (createBodyOf U X d3) = (s3, Success 201 b3)" "b_test b3 = castObjectId U"
    "centers s3 = centers s" "tests s3 = tests s" "?ids s3 = insert n3 (?ids s2)" "?n s3 = 3"
    using createBooking_admit [of s2 X c U u now d3 tz d n3 usr] eU fut(3) day(3) limU 2
    by auto
  have "n4 \<notin> ?ids s3" using ids 1(5) 2(5) 3(5) by auto
  moreover have "findById c_id (centers s3) (castObjectId X) = Some c"
    "findById t_id (tests s3) (castObjectId U) = Some u"
    using X tU 3(3,4) by simp_all
  ultimately obtain s4 b4 where 4:
    "createBooking tz now n4 s3 usr (createBodyOf U X d4) = (s4, Success 201 b4)" "b_test b4 = castObjectId U"
    "centers s4 = centers s" "tests s4 = tests s" "?ids s4 = insert n4 (?ids s3)" "?n s4 = 4"
    using createBooking_admit [of s3 X c U u now d4 tz d n4 usr] eU fut(4) day(4) limU 3
    by auto
  have "n5 \<notin> ?ids s4" using ids 1(5) 2(5) 3(5) 4(5) by auto
  moreover have c4: "findById c_id (centers s4) (castObjectId X) = Some c"
    "findById t_id (tests s4) (castObjectId U) = Some u"
    using X tU 4(3,4) by simp_all
  ultimately obtain s5 b5 where 5:
    "createBooking tz now n5 s4 usr (createBodyOf U X d5) = (s5, Success 201 b5)" "b_test b5 = castObjectId U"
    "centers s5 = centers s" "tests s5 = tests s" "?n s5 = 5"
    using createBooking_admit [of s4 X c U u now d5 tz d n5 usr] eU fut(5) day(5) limU 4
    by auto
  have "findById c_id (centers s5) (castObjectId X) = Some c"
    "findById t_id (tests s5) (castObjectId U) = Some u"
    using X tU 5(3,4) by simp_all
  from createBooking_refuse [OF this eU fut(6) day(6), of n6 usr] limU 5(5)
  have 6: "createBooking tz now n6 s5 usr (createBodyOf U X d6) = (s5, Failure 400 (noSlotsMessage 5))"
    by simp
  have "snd (createAll tz now s
            [(n1, usr, createBodyOf T X d1), (n2, usr, createBodyOf U X d2),
             (n3, usr, createBodyOf U X d3), (n4, usr, createBodyOf U X d4),
             (n5, usr, createBodyOf U X d5), (n6, usr, createBodyOf U X d6)])
         = [Success 201 b1, Success 201 b2, Success 201 b3, Success 201 b4, Success 201 b5,
            Failure 400 (noSlotsMessage 5)]"
    by (simp add: 1(1) 2(1) 3(1) 4(1) 5(1) 6)
  then show ?thesis using 1(2) 2(2) 3(2) 4(2) 5(2) by simp
qed
theorem scenario_B_witness:
  "findById c_id (centers dbB) (castObjectId ''c2'') = Some centerY
   \<and> c_availableSlotsPerDay centerY = 5
   \<and> overrides centerY ''a1'' = Some 1
   \<and> overrides centerY ''a3'' = None
   \<and> countBookingsForDate 0 (bookings dbB) (castObjectId ''c2'') june1_10h = 0
   \<and> (\<exists>b1 b2 b3 b4 b5.
         snd (createAll 0 may31_12h dbB
                [(''b1'', customer, createBodyOf ''a1'' ''c2'' june1_10h),
                 (''b2'', customer, createBodyOf ''a3'' ''c2'' june1_15h30),
                 (''b3'', customer, createBodyOf ''a3'' ''c2'' june1_10h),
                 (''b4'', customer, createBodyOf ''a3'' ''c2'' june1_15h30),
                 (''b5'', customer, createBodyOf ''a3'' ''c2'' june1_10h),
                 (''b6'', customer, createBodyOf ''a3'' ''c2'' june1_15h30)])
           = [Success 201 b1, Success 201 b2, Success 201 b3, Success 201 b4, Success 201 b5,
              Failure 400 (noSlotsMessage 5)]
         \<and> map b_test [b1, b2, b3, b4, b5] = [''a1'', ''a3'', ''a3'', ''a3'', ''a3''])"
proof -
  let ?tT = "\<lparr>t_id = ''a1'', t_price = 250,
              t_hcsPricing = [\<lparr>p_hcs = ''c2'', p_price = 300, p_status = ''approved''\<rparr>]\<rparr>"
  let ?tV = "\<lparr>t_id = ''a3'', t_price = 90,
              t_hcsPricing = [\<lparr>p_hcs = ''c2'', p_price = 120, p_status = ''approved''\<rparr>]\<rparr>"
  have X: "findById c_id (centers dbB) (castObjectId ''c2'') = Some centerY"
    by (simp add: findById_def dbB_def centerY_def castObjectId_def lowerHex_def)
  have dflt: "c_availableSlotsPerDay centerY = 5" by (simp add: centerY_def)
  have ovT: "overrides centerY ''a1'' = Some 1" by (simp add: overrides_def centerY_def)
  have ovU: "overrides centerY ''a3'' = None" by (simp add: overrides_def centerY_def)
  have tT: "findById t_id (tests dbB) (castObjectId ''a1'') = Some ?tT"
    by (simp add: findById_def dbB_def castObjectId_def lowerHex_def)
  have eT: "approvedEntries ?tT ''c2'' \<noteq> []" by (simp add: approvedEntries_def)
  have tU: "findById t_id (tests dbB) (castObjectId ''a3'') = Some ?tV"
    by (simp add: findById_def dbB_def castObjectId_def lowerHex_def)
  have eU: "approvedEntries ?tV ''c2'' \<noteq> []" by (simp add: approvedEntries_def)
  have times: "\<forall>k \<in> set [june1_10h, june1_15h30, june1_10h, june1_15h30, june1_10h, june1_15h30].
                 may31_12h < k \<and> localDay 0 k = localDay 0 june1_10h"
    by (simp add: localDay_def msPerDay_def june1_10h_def june1_15h30_def may31_12h_def)
  have empty: "countBookingsForDate 0 (bookings dbB) (castObjectId ''c2'') june1_10h = 0"
    by (simp add: countBookingsForDate_def dbB_def)
  have ids: "distinct [''b1'', ''b2'', ''b3'', ''b4'', ''b5'', ''b6'']"
    "set [''b1'', ''b2'', ''b3'', ''b4'', ''b5'', ''b6''] \<inter> b_id ` set (bookings dbB) = {}"
    by (simp_all add: dbB_def)
  have k: "castObjectId ''a1'' = ''a1''" "castObjectId ''a3'' = ''a3''"
    by (simp_all add: castObjectId_def lowerHex_def)
  from scenario_B [OF X dflt ovT ovU tT eT tU eU times empty ids, of customer]
  show ?thesis using X dflt ovT ovU empty unfolding k by blast
qed

end
